theory Spec2Isabelle
  imports Main "HOL-Library.Word"
begin

unbundle bit_operations_syntax

section \<open>The edit-memory command (hprdbgctrl/e.cpp)\<close>

subsection \<open>Data\<close>

text \<open>
  The two enumerations and the request header of the edit-memory command.  Only the fields
  that \<open>CommandEditMemory\<close> assigns are kept in the header record.
\<close>

datatype DEBUGGER_EDIT_MEMORY_TYPE = EDIT_VIRTUAL_MEMORY | EDIT_PHYSICAL_MEMORY

datatype DEBUGGER_EDIT_MEMORY_BYTE_SIZE = EDIT_BYTE | EDIT_DWORD | EDIT_QWORD

record DEBUGGER_EDIT_MEMORY =
  Address :: "64 word"
  ProcessId :: "32 word"
  MemoryType :: DEBUGGER_EDIT_MEMORY_TYPE
  ByteSize :: DEBUGGER_EDIT_MEMORY_BYTE_SIZE
  CountOf64Chunks :: "32 word"
  FinalStructureSize :: "32 word"

text \<open>
  The texts handed to \<open>ShowMessages\<close>, one constructor per format string of e.cpp:
  \<^item> \<open>IncorrectUse\<close>: incorrect use of 'e*'
  \<^item> \<open>UnknownError\<close>: unknown error happened !
  \<^item> \<open>BadProcessId\<close>: please specify a correct hex prcoess id
  \<^item> \<open>BadAddress\<close>: please specify a correct hex address to edit
  \<^item> \<open>ByteValueExpected\<close>: please specify a byte (hex) value for 'eb' or '!eb'
  \<^item> \<open>DwordValueExpected\<close>: please specify a dword (hex) value for 'ed' or '!ed'
  \<^item> \<open>QwordValueExpected\<close>: please specify a qword (hex) value for 'eq' or '!eq'
  \<^item> \<open>BadValue\<close>: please specify a correct hex value to change the memory content
  \<^item> \<open>MissingAddress\<close>: please specify a correct hex address
  \<^item> \<open>MissingValue\<close>: please specify a correct hex value as the content to edit
  \<^item> \<open>MissingProcessId\<close>: please specify a correct hex value as the process id
  \<^item> \<open>HandleNotFound\<close>: Handle not found, probably the driver is not loaded.
  \<^item> \<open>UnableToAllocate\<close>: unable to allocate memory
  \<^item> \<open>IoctlFailed code\<close>: Ioctl failed with code 0x%x, with the value of GetLastError()
  \<^item> \<open>HelpLine i\<close>: the i-th of the ten texts printed by \<open>CommandEditMemoryHelp\<close>
\<close>

datatype message =
    IncorrectUse
  | UnknownError
  | BadProcessId
  | BadAddress
  | ByteValueExpected
  | DwordValueExpected
  | QwordValueExpected
  | BadValue
  | MissingAddress
  | MissingValue
  | MissingProcessId
  | HandleNotFound
  | UnableToAllocate
  | IoctlFailed "32 word"
  | HelpLine nat

text \<open>
  What a call of the command does to the outside, in order: messages printed, the
  allocation of the final buffer, the control call that carries the buffer and its length
  to the driver.  \<open>HeapOverflow\<close> stands for a write past the end of the allocation
  (undefined behaviour in C++), after which nothing is said about the run.
\<close>

datatype event =
    ShowMessages message
  | malloc "32 word"
  | DeviceIoControl "8 word list" "32 word"
  | HeapOverflow

text \<open>
  Everything \<open>CommandEditMemory\<close> uses that is declared outside e.cpp: the two string
  converters, the size and object representation of the header, the enumerators that
  \<open>= {0}\<close> gives to the header, the indeterminate initial value of the local \<open>Address\<close>,
  and the answers of the operating system.
\<close>

record environment =
  ConvertStringToUInt64 :: "string \<Rightarrow> 64 word option"
  ConvertStringToUInt32 :: "string \<Rightarrow> 32 word option"
  GetCurrentProcessId :: "32 word"
  SIZEOF_DEBUGGER_EDIT_MEMORY :: nat
  request_byte :: "DEBUGGER_EDIT_MEMORY \<Rightarrow> nat \<Rightarrow> 8 word"
  zero_MemoryType :: DEBUGGER_EDIT_MEMORY_TYPE
  zero_ByteSize :: DEBUGGER_EDIT_MEMORY_BYTE_SIZE
  uninitialized_Address :: "64 word"
  g_DeviceHandle :: bool
  malloc_succeeds :: "32 word \<Rightarrow> bool"
  DeviceIoControl_succeeds :: "8 word list \<Rightarrow> 32 word \<Rightarrow> bool"
  GetLastError :: "32 word"

text \<open>The local variables of \<open>CommandEditMemory\<close> that live across loop iterations.\<close>

record locals =
  EditMemoryRequest_MemoryType :: DEBUGGER_EDIT_MEMORY_TYPE
  EditMemoryRequest_ByteSize :: DEBUGGER_EDIT_MEMORY_BYTE_SIZE
  SetAddress :: bool
  SetValue :: bool
  SetProcId :: bool
  NextIsProcId :: bool
  Address_local :: "64 word"
  ProcId :: "32 word"
  CountOfValues :: "32 word"
  ValuesToEdit :: "64 word list"

subsection \<open>Operations\<close>

definition CommandEditMemoryHelp :: "event list" where
  "CommandEditMemoryHelp = map (\<lambda>i. ShowMessages (HelpLine i)) [0..<10]"

text \<open>\<open>Section.rfind(p, 0) == 0\<close>: the string starts with \<open>p\<close>.\<close>

definition starts_with :: "string \<Rightarrow> string \<Rightarrow> bool" where
  "starts_with p s = (take (length p) s = p)"

definition backslash :: char where
  "backslash = CHR 0x5C"

definition backtick :: char where
  "backtick = CHR 0x60"

text \<open>Lines 131 to 137: remove the hex notation, then every backtick.\<close>

definition remove_hex_notation :: "string \<Rightarrow> string" where
  "remove_hex_notation Section =
     filter (\<lambda>c. c \<noteq> backtick)
       (if starts_with ''0x'' Section \<or> starts_with ''0X'' Section \<or>
           starts_with [backslash, CHR ''x''] Section \<or>
           starts_with [backslash, CHR ''X''] Section
        then drop 2 Section
        else if starts_with ''x'' Section \<or> starts_with ''X'' Section
        then drop 1 Section
        else Section)"

definition initial_locals :: "environment \<Rightarrow> locals" where
  "initial_locals env =
     \<lparr> EditMemoryRequest_MemoryType = zero_MemoryType env,
       EditMemoryRequest_ByteSize = zero_ByteSize env,
       SetAddress = False, SetValue = False, SetProcId = False, NextIsProcId = False,
       Address_local = uninitialized_Address env,
       ProcId = GetCurrentProcessId env,
       CountOfValues = 0,
       ValuesToEdit = [] \<rparr>"

text \<open>
  Lines 57 to 82: the six forms of the command, for a token equal to the first one.
\<close>

definition keyword_variant ::
  "string \<Rightarrow> (DEBUGGER_EDIT_MEMORY_TYPE \<times> DEBUGGER_EDIT_MEMORY_BYTE_SIZE) option" where
  "keyword_variant Section =
     (if Section = ''!eb'' then Some (EDIT_PHYSICAL_MEMORY, EDIT_BYTE)
      else if Section = ''!ed'' then Some (EDIT_PHYSICAL_MEMORY, EDIT_DWORD)
      else if Section = ''!eq'' then Some (EDIT_PHYSICAL_MEMORY, EDIT_QWORD)
      else if Section = ''eb'' then Some (EDIT_VIRTUAL_MEMORY, EDIT_BYTE)
      else if Section = ''ed'' then Some (EDIT_VIRTUAL_MEMORY, EDIT_DWORD)
      else if Section = ''eq'' then Some (EDIT_VIRTUAL_MEMORY, EDIT_QWORD)
      else None)"

text \<open>
  One iteration of the loop over the tokens (lines 53 to 189).  \<open>Inl\<close> is a \<open>return\<close>
  out of the function, with what was printed before it; \<open>Inr\<close> goes on to the next token.
  \<open>keyword\<close> is \<open>SplittedCommand.at(0)\<close>.
\<close>

definition loop_body :: "environment \<Rightarrow> string \<Rightarrow> locals \<Rightarrow> string \<Rightarrow> event list + locals" where
  "loop_body env keyword s Section =
     (if Section = keyword then
        (case keyword_variant Section of
           Some (type, width) \<Rightarrow>
             Inr (s\<lparr>EditMemoryRequest_MemoryType := type,
                    EditMemoryRequest_ByteSize := width\<rparr>)
         | None \<Rightarrow> Inl (ShowMessages UnknownError # CommandEditMemoryHelp))
      else if NextIsProcId s then
        (case ConvertStringToUInt32 env Section of
           None \<Rightarrow> Inl (ShowMessages BadProcessId # CommandEditMemoryHelp)
         | Some p \<Rightarrow> Inr (s\<lparr>NextIsProcId := False, ProcId := p\<rparr>))
      else if \<not> SetProcId s \<and> Section = ''pid'' then
        Inr (s\<lparr>NextIsProcId := True\<rparr>)
      else if \<not> SetAddress s then
        (case ConvertStringToUInt64 env Section of
           None \<Rightarrow> Inl (ShowMessages BadAddress # CommandEditMemoryHelp)
         | Some a \<Rightarrow> Inr (s\<lparr>Address_local := a, SetAddress := True\<rparr>))
      else
        (let Section' = remove_hex_notation Section in
         if EditMemoryRequest_ByteSize s = EDIT_BYTE \<and> 3 \<le> length Section' then
           Inl [ShowMessages ByteValueExpected]
         else if EditMemoryRequest_ByteSize s = EDIT_DWORD \<and> 9 \<le> length Section' then
           Inl [ShowMessages DwordValueExpected]
         else if EditMemoryRequest_ByteSize s = EDIT_QWORD \<and> 17 \<le> length Section' then
           Inl [ShowMessages QwordValueExpected]
         else
           (case ConvertStringToUInt64 env Section' of
              None \<Rightarrow> Inl (ShowMessages BadValue # CommandEditMemoryHelp)
            | Some Value \<Rightarrow>
                Inr (s\<lparr>ValuesToEdit := ValuesToEdit s @ [Value],
                       CountOfValues := CountOfValues s + 1,
                       SetValue := True\<rparr>))))"

text \<open>The range-based \<open>for\<close> over the tokens, leaving at the first \<open>return\<close>.\<close>

fun scan :: "environment \<Rightarrow> string \<Rightarrow> locals \<Rightarrow> string list \<Rightarrow> event list + locals" where
  "scan env keyword s [] = Inr s"
| "scan env keyword s (Section # rest) =
     (case loop_body env keyword s Section of
        Inl out \<Rightarrow> Inl out
      | Inr s' \<Rightarrow> scan env keyword s' rest)"

text \<open>
  The tokens of a stream that the loop reads as values, in the order of the stream.  This
  follows the tests of the loop body alone (lines 55, 86, 107, 112 and 126), without the
  conversions: a token equal to the keyword is skipped; a token met while a process id is
  awaited is the id; \<open>pid\<close> is a marker (the flag \<open>SetProcId\<close> that guards this
  test is never set); the first remaining token is the address; every later one is a
  value.  The two flags are \<open>NextIsProcId\<close> and \<open>SetAddress\<close>.
\<close>

fun value_tokens :: "string \<Rightarrow> bool \<Rightarrow> bool \<Rightarrow> string list \<Rightarrow> string list" where
  "value_tokens keyword awaited set_address [] = []"
| "value_tokens keyword awaited set_address (Section # rest) =
     (if Section = keyword then value_tokens keyword awaited set_address rest
      else if awaited then value_tokens keyword False set_address rest
      else if Section = ''pid'' then value_tokens keyword True set_address rest
      else if \<not> set_address then value_tokens keyword awaited True rest
      else Section # value_tokens keyword awaited set_address rest)"

text \<open>Lines 194 to 196 and 231: the header as it is when it is copied to the buffer.\<close>

definition fill_request :: "locals \<Rightarrow> 32 word \<Rightarrow> DEBUGGER_EDIT_MEMORY" where
  "fill_request s FinalSize =
     \<lparr> Address = Address_local s,
       ProcessId = ProcId s,
       MemoryType = EditMemoryRequest_MemoryType s,
       ByteSize = EditMemoryRequest_ByteSize s,
       CountOf64Chunks = CountOfValues s,
       FinalStructureSize = FinalSize \<rparr>"

text \<open>
  Line 226.  The sum is computed in \<open>size_t\<close> and stored in the \<open>UINT32\<close> \<open>FinalSize\<close>:
  whatever the width of \<open>size_t\<close>, the stored value is the sum modulo \<open>2 ^ 32\<close>.
\<close>

definition compute_FinalSize :: "environment \<Rightarrow> locals \<Rightarrow> 32 word" where
  "compute_FinalSize env s =
     word_of_nat (unat (CountOfValues s) * 8 + SIZEOF_DEBUGGER_EDIT_MEMORY env)"

text \<open>The bytes of the header, and of one \<open>UINT64\<close> (least significant byte first).\<close>

definition header_image :: "environment \<Rightarrow> DEBUGGER_EDIT_MEMORY \<Rightarrow> 8 word list" where
  "header_image env r = map (request_byte env r) [0..<SIZEOF_DEBUGGER_EDIT_MEMORY env]"

definition bytes_of_UINT64 :: "64 word \<Rightarrow> 8 word list" where
  "bytes_of_UINT64 v = map (\<lambda>i. ucast (drop_bit (8 * i) v)) [0..<8]"

text \<open>
  Reading a \<open>UINT64\<close> and a \<open>UINT32\<close> back from bytes in memory (least
  significant byte first), as the driver does with a slot of the buffer and with a field
  of the header.
\<close>

definition UINT64_of_bytes :: "8 word list \<Rightarrow> 64 word" where
  "UINT64_of_bytes bs = foldr (\<lambda>b w. ucast b OR push_bit 8 w) bs 0"

definition UINT32_of_bytes :: "8 word list \<Rightarrow> 32 word" where
  "UINT32_of_bytes bs = foldr (\<lambda>b w. ucast b OR push_bit 8 w) bs 0"

text \<open>
  A block write into an allocation: \<open>None\<close> when it would run past the end.
\<close>

definition write_at :: "nat \<Rightarrow> 'a list \<Rightarrow> 'a list \<Rightarrow> 'a list option" where
  "write_at off bs buf =
     (if off + length bs \<le> length buf
      then Some (take off buf @ bs @ drop (off + length bs) buf)
      else None)"

text \<open>
  Lines 246 to 257: \<open>ZeroMemory\<close>, \<open>memcpy\<close> of the header, \<open>std::copy\<close> of the whole
  vector to the address \<open>SIZEOF_DEBUGGER_EDIT_MEMORY\<close> bytes into the buffer.
\<close>

definition fill_FinalBuffer ::
  "environment \<Rightarrow> DEBUGGER_EDIT_MEMORY \<Rightarrow> 64 word list \<Rightarrow> 32 word \<Rightarrow> 8 word list option" where
  "fill_FinalBuffer env r values FinalSize =
     (case write_at 0 (header_image env r) (replicate (unat FinalSize) 0) of
        None \<Rightarrow> None
      | Some buf \<Rightarrow>
          write_at (SIZEOF_DEBUGGER_EDIT_MEMORY env) (concat (map bytes_of_UINT64 values)) buf)"

definition CommandEditMemory :: "environment \<Rightarrow> string list \<Rightarrow> event list" where
  "CommandEditMemory env SplittedCommand =
     (if length SplittedCommand \<le> 2 then
        ShowMessages IncorrectUse # CommandEditMemoryHelp
      else
        (case scan env (SplittedCommand ! 0) (initial_locals env) SplittedCommand of
           Inl out \<Rightarrow> out
         | Inr s \<Rightarrow>
             if \<not> SetAddress s then ShowMessages MissingAddress # CommandEditMemoryHelp
             else if \<not> SetValue s then ShowMessages MissingValue # CommandEditMemoryHelp
             else if NextIsProcId s then ShowMessages MissingProcessId # CommandEditMemoryHelp
             else if \<not> g_DeviceHandle env then [ShowMessages HandleNotFound]
             else
               (let FinalSize = compute_FinalSize env s in
                if \<not> malloc_succeeds env FinalSize then
                  [malloc FinalSize, ShowMessages UnableToAllocate]
                else
                  (case fill_FinalBuffer env (fill_request s FinalSize) (ValuesToEdit s) FinalSize of
                     None \<Rightarrow> [malloc FinalSize, HeapOverflow]
                   | Some FinalBuffer \<Rightarrow>
                       [malloc FinalSize, DeviceIoControl FinalBuffer FinalSize] @
                       (if DeviceIoControl_succeeds env FinalBuffer FinalSize then []
                        else [ShowMessages (IoctlFailed (GetLastError env))])))))"

text \<open>Which events are allocations, and which are control calls to the driver.\<close>

fun is_malloc :: "event \<Rightarrow> bool" where
  "is_malloc (malloc n) = True"
| "is_malloc e = False"

fun is_DeviceIoControl :: "event \<Rightarrow> bool" where
  "is_DeviceIoControl (DeviceIoControl buf n) = True"
| "is_DeviceIoControl e = False"

subsection \<open>The string converters\<close>

text \<open>
  Modelled from the spec: \<open>ConvertStringToUInt64\<close> and \<open>ConvertStringToUInt32\<close> are
  defined outside e.cpp, which only calls them.  The spec says of an address token that it
  is hex-parsed after stripping any of the prefixes 0x, 0X, backslash-x, backslash-X, x, X
  and removing embedded backticks, and that parse failure aborts; of a value that it is
  hex-parsed to a 64-bit integer; of a process id that it must parse as a hex 32-bit
  integer.  Here a string parses when it is a non-empty sequence of hex digits whose value
  fits the width.
\<close>

definition hex_digit :: "char \<Rightarrow> nat option" where
  "hex_digit c =
     (let n = (of_char c :: nat) in
      if 48 \<le> n \<and> n \<le> 57 then Some (n - 48)
      else if 97 \<le> n \<and> n \<le> 102 then Some (n - 87)
      else if 65 \<le> n \<and> n \<le> 70 then Some (n - 55)
      else None)"

fun hex_number :: "nat \<Rightarrow> string \<Rightarrow> nat option" where
  "hex_number acc [] = Some acc"
| "hex_number acc (c # cs) =
     (case hex_digit c of None \<Rightarrow> None | Some d \<Rightarrow> hex_number (16 * acc + d) cs)"

definition hex_parse :: "nat \<Rightarrow> string \<Rightarrow> nat option" where
  "hex_parse width digits =
     (if digits = [] then None
      else case hex_number 0 digits of
             None \<Rightarrow> None
           | Some n \<Rightarrow> if n < 2 ^ width then Some n else None)"

text \<open>
  Modelled from the spec: \<open>ConvertStringToUInt64\<close>, missing from the sources, strips the
  hex notation and the backticks in the way of lines 131 to 137 and hex-parses the rest to
  64 bits.
\<close>

definition spec_ConvertStringToUInt64 :: "string \<Rightarrow> 64 word option" where
  "spec_ConvertStringToUInt64 TextToConvert =
     map_option word_of_nat (hex_parse 64 (remove_hex_notation TextToConvert))"

text \<open>
  Modelled from the spec: \<open>ConvertStringToUInt32\<close>, missing from the sources, parses a
  hex 32-bit integer.
\<close>

definition spec_ConvertStringToUInt32 :: "string \<Rightarrow> 32 word option" where
  "spec_ConvertStringToUInt32 TextToConvert =
     map_option word_of_nat (hex_parse 32 TextToConvert)"

text \<open>
  A concrete layout of the header, for the concrete environment below: the address in
  bytes 0 to 7, then the process id, the memory type, the width, the count of values and
  the final size in four bytes each, then four bytes of padding; 32 bytes in all.
\<close>

definition bytes_of_UINT32 :: "32 word \<Rightarrow> 8 word list" where
  "bytes_of_UINT32 v = map (\<lambda>i. ucast (drop_bit (8 * i) v)) [0..<4]"

definition sample_header_bytes :: "DEBUGGER_EDIT_MEMORY \<Rightarrow> 8 word list" where
  "sample_header_bytes r =
     bytes_of_UINT64 (Address r) @
     bytes_of_UINT32 (ProcessId r) @
     bytes_of_UINT32 (case MemoryType r of EDIT_VIRTUAL_MEMORY \<Rightarrow> 0 | EDIT_PHYSICAL_MEMORY \<Rightarrow> 1) @
     bytes_of_UINT32 (case ByteSize r of EDIT_BYTE \<Rightarrow> 0 | EDIT_DWORD \<Rightarrow> 1 | EDIT_QWORD \<Rightarrow> 2) @
     bytes_of_UINT32 (CountOf64Chunks r) @
     bytes_of_UINT32 (FinalStructureSize r) @
     [0, 0, 0, 0]"

text \<open>
  A concrete environment: the converters of the spec, a loaded driver, allocations and
  control calls that succeed, and the header layout above.
\<close>

definition sample_environment :: environment where
  "sample_environment =
     \<lparr> ConvertStringToUInt64 = spec_ConvertStringToUInt64,
       ConvertStringToUInt32 = spec_ConvertStringToUInt32,
       GetCurrentProcessId = 0x1A4,
       SIZEOF_DEBUGGER_EDIT_MEMORY = 32,
       request_byte = (\<lambda>r i. sample_header_bytes r ! i),
       zero_MemoryType = EDIT_VIRTUAL_MEMORY,
       zero_ByteSize = EDIT_BYTE,
       uninitialized_Address = 0,
       g_DeviceHandle = True,
       malloc_succeeds = (\<lambda>_. True),
       DeviceIoControl_succeeds = (\<lambda>_ _. True),
       GetLastError = 0 \<rparr>"

subsection \<open>Decorated tokens\<close>

text \<open>
  The hex notations that line 131 to 136 look for at the start of a token, and the strings
  that carry no decoration: no backtick, and none of the notations at the start.
\<close>

definition hex_notations :: "string list" where
  "hex_notations =
     [''0x'', ''0X'', [backslash, CHR ''x''], [backslash, CHR ''X''], ''x'', ''X'']"

definition undecorated :: "string \<Rightarrow> bool" where
  "undecorated digits =
     (backtick \<notin> set digits \<and> list_all (\<lambda>p. \<not> starts_with p digits) hex_notations)"

section \<open>User-mode access from the driver (UserAccess.c)\<close>

subsection \<open>Data\<close>

type_synonym NTSTATUS = "32 word"

text \<open>\<open>NT_SUCCESS(Status)\<close> is \<open>((NTSTATUS)(Status)) >= 0\<close>, on a signed 32-bit value.\<close>

definition NT_SUCCESS :: "NTSTATUS \<Rightarrow> bool" where
  "NT_SUCCESS Status = (0 \<le> sint Status)"

definition STATUS_SUCCESS :: NTSTATUS where
  "STATUS_SUCCESS = 0"

definition STATUS_INFO_LENGTH_MISMATCH :: NTSTATUS where
  "STATUS_INFO_LENGTH_MISMATCH = 0xC0000004"

datatype PROCESSINFOCLASS = ProcessBasicInformation | ProcessImageFileName

text \<open>A counted string: its two lengths and the bytes its \<open>Buffer\<close> points to.\<close>

record UNICODE_STRING =
  Length :: "16 word"
  MaximumLength :: "16 word"
  Buffer :: "8 word list"

text \<open>The two pool allocations of the image-path query, named after the pointers.\<close>

datatype pool_allocation = Buffer_temporary | ProcessImageName_Buffer

text \<open>
  The calls a function of UserAccess.c makes on kernel objects, in order.  A lookup or an
  open carries its status: a successful \<open>PsLookupProcessByProcessId\<close> takes a reference on
  the process object, which \<open>ObDereferenceObject\<close> gives back; a successful
  \<open>ObOpenObjectByPointer\<close> creates a handle, which \<open>ZwClose\<close> would close.  An allocation
  carries its size and whether it returned a non-null pointer.  \<open>Log\<close> carries the four
  arguments after the format string.
\<close>

datatype kernel_event =
    PsLookupProcessByProcessId NTSTATUS
  | ObOpenObjectByPointer NTSTATUS
  | ObDereferenceObject
  | ZwClose
  | LogError NTSTATUS
  | ZwQueryInformationProcess PROCESSINFOCLASS "32 word"
  | ExAllocatePoolWithTag pool_allocation "32 word" bool
  | ExFreePoolWithTag pool_allocation
  | KeStackAttachProcess
  | KeUnstackDetachProcess
  | Log "64 word" "64 word" "64 word" "64 word"

text \<open>What \<open>ZwQueryInformationProcess\<close> answers to one call.\<close>

record query_answer =
  Status :: NTSTATUS
  ReturnLength :: "32 word"
  ImageFileName :: UNICODE_STRING
  PebBaseAddress :: "64 word"

text \<open>
  The kernel as the functions see it: the status of the lookup and of the open for a process
  id, the resolved routines (\<open>None\<close> is a null function pointer), whether a pool allocation
  succeeds, and the sizes and offsets of structures declared outside UserAccess.c.
\<close>

record kernel =
  PsLookupProcessByProcessId_status :: "64 word \<Rightarrow> NTSTATUS"
  ObOpenObjectByPointer_status :: "64 word \<Rightarrow> NTSTATUS"
  g_ZwQueryInformationProcess :: "(PROCESSINFOCLASS \<Rightarrow> 32 word \<Rightarrow> query_answer) option"
  ExAllocatePoolWithTag_succeeds :: "pool_allocation \<Rightarrow> 32 word \<Rightarrow> bool"
  sizeof_UNICODE_STRING :: "32 word"
  sizeof_PROCESS_BASIC_INFORMATION :: "32 word"
  g_PsGetProcessPeb :: "(64 word \<Rightarrow> 64 word) option"
  g_PsGetProcessWow64Process :: "(64 word \<Rightarrow> 64 word) option"
  offsetof_ModuleListLoadOrder :: "64 word"
  offsetof_InLoadOrderModuleList :: "64 word"
  offsetof_InLoadOrderModuleList32 :: "64 word"
  offsetof_InLoadOrderLinks32 :: "64 word"

text \<open>The loader entries, with the fields that the walkers read.\<close>

record LDR_DATA_TABLE_ENTRY =
  DllBase :: "64 word"
  EntryPoint :: "64 word"
  BaseDllName_Buffer :: "64 word"
  FullDllName_Buffer :: "64 word"

record LDR_DATA_TABLE_ENTRY32 =
  DllBase32 :: "32 word"
  EntryPoint32 :: "32 word"
  BaseDllName_Buffer32 :: "32 word"
  FullDllName_Buffer32 :: "32 word"

text \<open>
  The address space of the target process, read while attached.  Each map gives what a read
  at an address returns; \<open>None\<close> is an address that cannot be read.
\<close>

record target_memory =
  read_Peb_Ldr :: "64 word \<rightharpoonup> 64 word"
  read_Flink :: "64 word \<rightharpoonup> 64 word"
  read_LDR_DATA_TABLE_ENTRY :: "64 word \<rightharpoonup> LDR_DATA_TABLE_ENTRY"
  read_Peb32_Ldr :: "64 word \<rightharpoonup> 32 word"
  read_Flink32 :: "64 word \<rightharpoonup> 32 word"
  read_LDR_DATA_TABLE_ENTRY32 :: "64 word \<rightharpoonup> LDR_DATA_TABLE_ENTRY32"

text \<open>How a call ends: it returns a value, or a read of unreadable memory stops the system.\<close>

datatype 'a ending = Returns 'a | BugCheck

subsection \<open>The image path and the PEB of a process\<close>

text \<open>
  \<open>RtlCopyUnicodeString\<close> into a zeroed destination buffer of \<open>capacity\<close> bytes: as many bytes
  as the source length and the destination's maximum length allow.
\<close>

definition RtlCopyUnicodeString :: "16 word \<Rightarrow> nat \<Rightarrow> UNICODE_STRING \<Rightarrow> UNICODE_STRING" where
  "RtlCopyUnicodeString MaximumLength' capacity ImageName =
     (let n = min (unat (Length ImageName)) (unat MaximumLength');
          copied = take n (Buffer ImageName)
      in \<lparr> Length = word_of_nat (length copied),
           MaximumLength = MaximumLength',
           Buffer = copied @ replicate (capacity - length copied) 0 \<rparr>)"

definition UserAccessAllocateAndGetImagePathFromProcessId ::
  "kernel \<Rightarrow> 64 word \<Rightarrow> 32 word \<Rightarrow> bool \<times> kernel_event list \<times> UNICODE_STRING option" where
  "UserAccessAllocateAndGetImagePathFromProcessId k ProcessId' SizeOfImageNameToBeAllocated =
     (let Status1 = PsLookupProcessByProcessId_status k ProcessId' in
      if \<not> NT_SUCCESS Status1 then (False, [PsLookupProcessByProcessId Status1], None)
      else
        let Status2 = ObOpenObjectByPointer_status k ProcessId' in
        if \<not> NT_SUCCESS Status2 then
          (False,
           [PsLookupProcessByProcessId Status1, ObOpenObjectByPointer Status2, LogError Status2],
           None)
        else
          let t1 = [PsLookupProcessByProcessId Status1, ObOpenObjectByPointer Status2,
                    ObDereferenceObject]
          in
          case g_ZwQueryInformationProcess k of
            None \<Rightarrow> (False, t1, None)
          | Some query \<Rightarrow>
              let probe = query ProcessImageFileName 0;
                  t2 = t1 @ [ZwQueryInformationProcess ProcessImageFileName 0]
              in
              if Status probe \<noteq> STATUS_INFO_LENGTH_MISMATCH then (False, t2, None)
              else
                let ReturnedLength = ReturnLength probe;
                    BufferLength = ReturnedLength - sizeof_UNICODE_STRING k
                in
                if SizeOfImageNameToBeAllocated < BufferLength then (False, t2, None)
                else if \<not> ExAllocatePoolWithTag_succeeds k Buffer_temporary ReturnedLength then
                  (False, t2 @ [ExAllocatePoolWithTag Buffer_temporary ReturnedLength False], None)
                else
                  let answer = query ProcessImageFileName ReturnedLength;
                      t3 = t2 @ [ExAllocatePoolWithTag Buffer_temporary ReturnedLength True,
                                 ZwQueryInformationProcess ProcessImageFileName ReturnedLength]
                  in
                  if NT_SUCCESS (Status answer) then
                    if \<not> ExAllocatePoolWithTag_succeeds k ProcessImageName_Buffer
                           SizeOfImageNameToBeAllocated
                    then
                      (False,
                       t3 @ [ExAllocatePoolWithTag ProcessImageName_Buffer
                               SizeOfImageNameToBeAllocated False],
                       None)
                    else
                      (True,
                       t3 @ [ExAllocatePoolWithTag ProcessImageName_Buffer
                               SizeOfImageNameToBeAllocated True,
                             ExFreePoolWithTag Buffer_temporary],
                       Some (RtlCopyUnicodeString (ucast SizeOfImageNameToBeAllocated)
                               (unat SizeOfImageNameToBeAllocated) (ImageFileName answer)))
                  else (False, t3 @ [ExFreePoolWithTag Buffer_temporary], None))"

definition UserAccessGetPebFromProcessId ::
  "kernel \<Rightarrow> 64 word \<Rightarrow> bool \<times> kernel_event list \<times> 64 word option" where
  "UserAccessGetPebFromProcessId k ProcessId' =
     (let Status1 = PsLookupProcessByProcessId_status k ProcessId' in
      if \<not> NT_SUCCESS Status1 then (False, [PsLookupProcessByProcessId Status1], None)
      else
        let Status2 = ObOpenObjectByPointer_status k ProcessId' in
        if \<not> NT_SUCCESS Status2 then
          (False,
           [PsLookupProcessByProcessId Status1, ObOpenObjectByPointer Status2, LogError Status2],
           None)
        else
          let t1 = [PsLookupProcessByProcessId Status1, ObOpenObjectByPointer Status2,
                    ObDereferenceObject]
          in
          case g_ZwQueryInformationProcess k of
            None \<Rightarrow> (False, t1, None)
          | Some query \<Rightarrow>
              let answer = query ProcessBasicInformation (sizeof_PROCESS_BASIC_INFORMATION k);
                  t2 = t1 @ [ZwQueryInformationProcess ProcessBasicInformation
                               (sizeof_PROCESS_BASIC_INFORMATION k)]
              in
              if NT_SUCCESS (Status answer) then (True, t2, Some (PebBaseAddress answer))
              else (False, t2, None))"

subsection \<open>The walk over the loaded modules\<close>

text \<open>
  The \<open>Log\<close> call in the body of each loop (lines 283 to 287, and lines 355 to 370
  where the 32-bit fields are first widened to 64 bits).
\<close>

definition module_line :: "LDR_DATA_TABLE_ENTRY \<Rightarrow> kernel_event" where
  "module_line Entry =
     Log (DllBase Entry) (EntryPoint Entry) (BaseDllName_Buffer Entry) (FullDllName_Buffer Entry)"

definition module_line32 :: "LDR_DATA_TABLE_ENTRY32 \<Rightarrow> kernel_event" where
  "module_line32 Entry =
     (let BaseAddr = (ucast (DllBase32 Entry) :: 64 word);
          EntrypointAddress = (ucast (EntryPoint32 Entry) :: 64 word);
          ModuleName_Buffer = (ucast (BaseDllName_Buffer32 Entry) :: 64 word);
          ModulePath_Buffer = (ucast (FullDllName_Buffer32 Entry) :: 64 word)
      in Log BaseAddr EntrypointAddress ModuleName_Buffer ModulePath_Buffer)"

text \<open>
  The \<open>for\<close> loop of \<open>UserAccessPrintLoadedModulesX64\<close> (lines 276 to 288), from the
  current \<open>List\<close>: the \<open>Log\<close> calls made, and whether the loop came back to the list head
  (\<open>True\<close>) or stopped at an unreadable address (\<open>False\<close>).  The loop has no bound of its
  own: a list that never comes back to the head gives \<open>None\<close>.
\<close>

partial_function (option) walk_x64 ::
  "kernel \<Rightarrow> target_memory \<Rightarrow> 64 word \<Rightarrow> 64 word \<Rightarrow> (kernel_event list \<times> bool) option" where
  "walk_x64 k m head List =
     (if List = head then Some ([], True)
      else
        case read_LDR_DATA_TABLE_ENTRY m (List - offsetof_InLoadOrderModuleList k) of
          None \<Rightarrow> Some ([], False)
        | Some Entry \<Rightarrow>
            case read_Flink m List of
              None \<Rightarrow> Some ([module_line Entry], False)
            | Some Flink \<Rightarrow>
                Option.bind (walk_x64 k m head Flink)
                  (\<lambda>(lines, finished). Some (module_line Entry # lines, finished)))"

definition UserAccessPrintLoadedModulesX64 ::
  "kernel \<Rightarrow> target_memory \<Rightarrow> 64 word \<Rightarrow> (bool ending \<times> kernel_event list) option" where
  "UserAccessPrintLoadedModulesX64 k m Proc =
     (case g_PsGetProcessPeb k of
        None \<Rightarrow> Some (Returns False, [])
      | Some PsGetProcessPeb \<Rightarrow>
          let Peb = PsGetProcessPeb Proc in
          if Peb = 0 then Some (Returns False, [])
          else
            case read_Peb_Ldr m Peb of
              None \<Rightarrow> Some (BugCheck, [KeStackAttachProcess])
            | Some Ldr \<Rightarrow>
                if Ldr = 0 then
                  Some (Returns False, [KeStackAttachProcess, KeUnstackDetachProcess])
                else
                  let head = Ldr + offsetof_ModuleListLoadOrder k in
                  case read_Flink m head of
                    None \<Rightarrow> Some (BugCheck, [KeStackAttachProcess])
                  | Some Flink \<Rightarrow>
                      map_option
                        (\<lambda>(lines, finished).
                           if finished
                           then (Returns True,
                                 KeStackAttachProcess # lines @ [KeUnstackDetachProcess])
                           else (BugCheck, KeStackAttachProcess # lines))
                        (walk_x64 k m head Flink))"

text \<open>
  The same for the 32-bit structures (lines 338 to 371): links, addresses and buffer
  pointers are 32 bits wide in the target and are widened to 64 bits.
\<close>

partial_function (option) walk_x86 ::
  "kernel \<Rightarrow> target_memory \<Rightarrow> 64 word \<Rightarrow> 64 word \<Rightarrow> (kernel_event list \<times> bool) option" where
  "walk_x86 k m head List =
     (if List = head then Some ([], True)
      else
        case read_LDR_DATA_TABLE_ENTRY32 m (List - offsetof_InLoadOrderLinks32 k) of
          None \<Rightarrow> Some ([], False)
        | Some Entry \<Rightarrow>
            case read_Flink32 m List of
              None \<Rightarrow> Some ([module_line32 Entry], False)
            | Some Flink \<Rightarrow>
                Option.bind (walk_x86 k m head (ucast Flink))
                  (\<lambda>(lines, finished). Some (module_line32 Entry # lines, finished)))"

definition UserAccessPrintLoadedModulesX86 ::
  "kernel \<Rightarrow> target_memory \<Rightarrow> 64 word \<Rightarrow> (bool ending \<times> kernel_event list) option" where
  "UserAccessPrintLoadedModulesX86 k m Proc =
     (case g_PsGetProcessWow64Process k of
        None \<Rightarrow> Some (Returns False, [])
      | Some PsGetProcessWow64Process \<Rightarrow>
          let Peb = PsGetProcessWow64Process Proc in
          if Peb = 0 then Some (Returns False, [])
          else
            case read_Peb32_Ldr m Peb of
              None \<Rightarrow> Some (BugCheck, [KeStackAttachProcess])
            | Some Ldr32 \<Rightarrow>
                let Ldr = (ucast Ldr32 :: 64 word) in
                if Ldr = 0 then
                  Some (Returns False, [KeStackAttachProcess, KeUnstackDetachProcess])
                else
                  let head = Ldr + offsetof_InLoadOrderModuleList32 k in
                  case read_Flink32 m head of
                    None \<Rightarrow> Some (BugCheck, [KeStackAttachProcess])
                  | Some Flink \<Rightarrow>
                      map_option
                        (\<lambda>(lines, finished).
                           if finished
                           then (Returns True,
                                 KeStackAttachProcess # lines @ [KeUnstackDetachProcess])
                           else (BugCheck, KeStackAttachProcess # lines))
                        (walk_x86 k m head (ucast Flink)))"

subsection \<open>Resources taken and given back\<close>

text \<open>
  Counting in a sequence of calls: the references taken by successful lookups and the
  references given back, the handles created by successful opens and the handles closed.
\<close>

fun takes_reference :: "kernel_event \<Rightarrow> bool" where
  "takes_reference (PsLookupProcessByProcessId Status') = NT_SUCCESS Status'"
| "takes_reference e = False"

fun opens_handle :: "kernel_event \<Rightarrow> bool" where
  "opens_handle (ObOpenObjectByPointer Status') = NT_SUCCESS Status'"
| "opens_handle e = False"

definition references_taken :: "kernel_event list \<Rightarrow> nat" where
  "references_taken calls = length (filter takes_reference calls)"

definition references_released :: "kernel_event list \<Rightarrow> nat" where
  "references_released calls = count_list calls ObDereferenceObject"

definition handles_opened :: "kernel_event list \<Rightarrow> nat" where
  "handles_opened calls = length (filter opens_handle calls)"

definition handles_closed :: "kernel_event list \<Rightarrow> nat" where
  "handles_closed calls = count_list calls ZwClose"

text \<open>
  Every reference and every handle that the calls acquired has been released exactly once.
\<close>

definition releases_everything :: "kernel_event list \<Rightarrow> bool" where
  "releases_everything calls =
     (references_released calls = references_taken calls \<and>
      handles_closed calls = handles_opened calls)"

text \<open>The temporary buffer of the image-path query: allocated, and freed.\<close>

fun allocates_temporary :: "kernel_event \<Rightarrow> bool" where
  "allocates_temporary (ExAllocatePoolWithTag Buffer_temporary n ok) = ok"
| "allocates_temporary e = False"

definition temporary_allocated :: "kernel_event list \<Rightarrow> nat" where
  "temporary_allocated calls = length (filter allocates_temporary calls)"

definition temporary_freed :: "kernel_event list \<Rightarrow> nat" where
  "temporary_freed calls = count_list calls (ExFreePoolWithTag Buffer_temporary)"

text \<open>The calls that are lines of the module listing.\<close>

fun is_Log :: "kernel_event \<Rightarrow> bool" where
  "is_Log (Log a b c d) = True"
| "is_Log e = False"

subsection \<open>A load-order list in the target\<close>

text \<open>
  The links of the target, followed from \<open>List\<close>, go through the entries \<open>es\<close> (the
  address of each link with the fields of its entry), none of them the list head, and then
  reach the head: a circular list of \<open>length es\<close> modules.
\<close>

fun chain_x64 ::
  "kernel \<Rightarrow> target_memory \<Rightarrow> 64 word \<Rightarrow> 64 word \<Rightarrow> (64 word \<times> LDR_DATA_TABLE_ENTRY) list \<Rightarrow> bool"
  where
  "chain_x64 k m head List [] = (List = head)"
| "chain_x64 k m head List ((a, Entry) # es) =
     (List = a \<and> a \<noteq> head \<and>
      read_LDR_DATA_TABLE_ENTRY m (a - offsetof_InLoadOrderModuleList k) = Some Entry \<and>
      (case read_Flink m a of None \<Rightarrow> False | Some Flink \<Rightarrow> chain_x64 k m head Flink es))"

fun chain_x86 ::
  "kernel \<Rightarrow> target_memory \<Rightarrow> 64 word \<Rightarrow> 64 word \<Rightarrow> (64 word \<times> LDR_DATA_TABLE_ENTRY32) list \<Rightarrow> bool"
  where
  "chain_x86 k m head List [] = (List = head)"
| "chain_x86 k m head List ((a, Entry) # es) =
     (List = a \<and> a \<noteq> head \<and>
      read_LDR_DATA_TABLE_ENTRY32 m (a - offsetof_InLoadOrderLinks32 k) = Some Entry \<and>
      (case read_Flink32 m a of
         None \<Rightarrow> False
       | Some Flink \<Rightarrow> chain_x86 k m head (ucast Flink) es))"

text \<open>
  The process has a PEB with a loader structure whose load-order list is the circular list
  of the entries \<open>es\<close>.
\<close>

definition load_order_list_x64 ::
  "kernel \<Rightarrow> target_memory \<Rightarrow> 64 word \<Rightarrow> (64 word \<times> LDR_DATA_TABLE_ENTRY) list \<Rightarrow> bool" where
  "load_order_list_x64 k m Proc es =
     (case g_PsGetProcessPeb k of
        None \<Rightarrow> False
      | Some PsGetProcessPeb \<Rightarrow>
          PsGetProcessPeb Proc \<noteq> 0 \<and>
          (case read_Peb_Ldr m (PsGetProcessPeb Proc) of
             None \<Rightarrow> False
           | Some Ldr \<Rightarrow>
               Ldr \<noteq> 0 \<and>
               (case read_Flink m (Ldr + offsetof_ModuleListLoadOrder k) of
                  None \<Rightarrow> False
                | Some Flink \<Rightarrow>
                    chain_x64 k m (Ldr + offsetof_ModuleListLoadOrder k) Flink es)))"

definition load_order_list_x86 ::
  "kernel \<Rightarrow> target_memory \<Rightarrow> 64 word \<Rightarrow> (64 word \<times> LDR_DATA_TABLE_ENTRY32) list \<Rightarrow> bool" where
  "load_order_list_x86 k m Proc es =
     (case g_PsGetProcessWow64Process k of
        None \<Rightarrow> False
      | Some PsGetProcessWow64Process \<Rightarrow>
          PsGetProcessWow64Process Proc \<noteq> 0 \<and>
          (case read_Peb32_Ldr m (PsGetProcessWow64Process Proc) of
             None \<Rightarrow> False
           | Some Ldr32 \<Rightarrow>
               ucast Ldr32 \<noteq> (0 :: 64 word) \<and>
               (case read_Flink32 m (ucast Ldr32 + offsetof_InLoadOrderModuleList32 k) of
                  None \<Rightarrow> False
                | Some Flink \<Rightarrow>
                    chain_x86 k m (ucast Ldr32 + offsetof_InLoadOrderModuleList32 k)
                      (ucast Flink) es)))"

subsection \<open>A concrete kernel and target\<close>

text \<open>
  A kernel in which every call succeeds: the size probe answers
  \<open>STATUS_INFO_LENGTH_MISMATCH\<close> with 48 bytes, the sized query answers with a path of
  four bytes.  The target has a loader structure at 0x8000 with two modules in its
  64-bit list and two in its 32-bit list.
\<close>

definition sample_query :: "PROCESSINFOCLASS \<Rightarrow> 32 word \<Rightarrow> query_answer" where
  "sample_query class len =
     \<lparr> Status = (if class = ProcessImageFileName \<and> len = 0
                 then STATUS_INFO_LENGTH_MISMATCH else STATUS_SUCCESS),
       ReturnLength = 48,
       ImageFileName = \<lparr> Length = 4, MaximumLength = 4, Buffer = [0x61, 0, 0x62, 0] \<rparr>,
       PebBaseAddress = 0x7000 \<rparr>"

definition sample_kernel :: kernel where
  "sample_kernel =
     \<lparr> PsLookupProcessByProcessId_status = (\<lambda>_. STATUS_SUCCESS),
       ObOpenObjectByPointer_status = (\<lambda>_. STATUS_SUCCESS),
       g_ZwQueryInformationProcess = Some sample_query,
       ExAllocatePoolWithTag_succeeds = (\<lambda>_ _. True),
       sizeof_UNICODE_STRING = 16,
       sizeof_PROCESS_BASIC_INFORMATION = 48,
       g_PsGetProcessPeb = Some (\<lambda>_. 0x7000),
       g_PsGetProcessWow64Process = Some (\<lambda>_. 0x7000),
       offsetof_ModuleListLoadOrder = 0x10,
       offsetof_InLoadOrderModuleList = 0,
       offsetof_InLoadOrderModuleList32 = 0xC,
       offsetof_InLoadOrderLinks32 = 0 \<rparr>"

text \<open>The same kernel when the pool has room for the temporary buffer only.\<close>

definition exhausted_kernel :: kernel where
  "exhausted_kernel =
     sample_kernel\<lparr>ExAllocatePoolWithTag_succeeds := (\<lambda>a _. a = Buffer_temporary)\<rparr>"

definition sample_entry1 :: LDR_DATA_TABLE_ENTRY where
  "sample_entry1 = \<lparr> DllBase = 0x400000, EntryPoint = 0x401000,
                      BaseDllName_Buffer = 0x9100, FullDllName_Buffer = 0x9200 \<rparr>"

definition sample_entry2 :: LDR_DATA_TABLE_ENTRY where
  "sample_entry2 = \<lparr> DllBase = 0x7FF00000, EntryPoint = 0x7FF01000,
                      BaseDllName_Buffer = 0xA100, FullDllName_Buffer = 0xA200 \<rparr>"

definition sample_entry32_1 :: LDR_DATA_TABLE_ENTRY32 where
  "sample_entry32_1 = \<lparr> DllBase32 = 0x400000, EntryPoint32 = 0x401000,
                         BaseDllName_Buffer32 = 0x9100, FullDllName_Buffer32 = 0x9200 \<rparr>"

definition sample_entry32_2 :: LDR_DATA_TABLE_ENTRY32 where
  "sample_entry32_2 = \<lparr> DllBase32 = 0x77000000, EntryPoint32 = 0x77001000,
                         BaseDllName_Buffer32 = 0xA100, FullDllName_Buffer32 = 0xA200 \<rparr>"

definition sample_target :: target_memory where
  "sample_target =
     \<lparr> read_Peb_Ldr = [0x7000 \<mapsto> 0x8000],
       read_Flink = [0x8010 \<mapsto> 0x9000, 0x9000 \<mapsto> 0xA000, 0xA000 \<mapsto> 0x8010],
       read_LDR_DATA_TABLE_ENTRY = [0x9000 \<mapsto> sample_entry1, 0xA000 \<mapsto> sample_entry2],
       read_Peb32_Ldr = [0x7000 \<mapsto> 0x8000],
       read_Flink32 = [0x800C \<mapsto> 0x9000, 0x9000 \<mapsto> 0xA000, 0xA000 \<mapsto> 0x800C],
       read_LDR_DATA_TABLE_ENTRY32 =
         [0x9000 \<mapsto> sample_entry32_1, 0xA000 \<mapsto> sample_entry32_2] \<rparr>"

text \<open>The same target with no loader structure: the \<open>Ldr\<close> field of the PEB is null.\<close>

definition sample_target_without_loader :: target_memory where
  "sample_target_without_loader =
     sample_target\<lparr>read_Peb_Ldr := [0x7000 \<mapsto> 0], read_Peb32_Ldr := [0x7000 \<mapsto> 0]\<rparr>"

section \<open>Properties of the edit-memory command\<close>

subsection \<open>The loop over the tokens\<close>

lemma scan_append:
  "scan env kw s (xs @ ys) =
     (case scan env kw s xs of Inl out \<Rightarrow> Inl out | Inr s' \<Rightarrow> scan env kw s' ys)"
  by (induction xs arbitrary: s) (auto split: sum.splits)

lemma loop_body_keeps_variant:
  assumes "loop_body env kw s t = Inr s'"
    and "keyword_variant kw = Some (EditMemoryRequest_MemoryType s, EditMemoryRequest_ByteSize s)"
  shows "EditMemoryRequest_MemoryType s' = EditMemoryRequest_MemoryType s \<and>
         EditMemoryRequest_ByteSize s' = EditMemoryRequest_ByteSize s"
  using assms
  by (auto simp: loop_body_def Let_def split: if_splits option.splits)

lemma scan_keeps_variant:
  assumes "scan env kw s ts = Inr s'"
    and "keyword_variant kw = Some (EditMemoryRequest_MemoryType s, EditMemoryRequest_ByteSize s)"
  shows "EditMemoryRequest_MemoryType s' = EditMemoryRequest_MemoryType s \<and>
         EditMemoryRequest_ByteSize s' = EditMemoryRequest_ByteSize s"
  using assms
proof (induction ts arbitrary: s)
  case Nil
  then show ?case by simp
next
  case (Cons t ts)
  from Cons.prems(1) obtain s1 where s1: "loop_body env kw s t = Inr s1"
    and rest: "scan env kw s1 ts = Inr s'"
    by (auto split: sum.splits)
  from loop_body_keeps_variant[OF s1 Cons.prems(2)]
  have same: "EditMemoryRequest_MemoryType s1 = EditMemoryRequest_MemoryType s"
    "EditMemoryRequest_ByteSize s1 = EditMemoryRequest_ByteSize s" by simp_all
  with Cons.prems(2) have "keyword_variant kw =
      Some (EditMemoryRequest_MemoryType s1, EditMemoryRequest_ByteSize s1)" by simp
  from Cons.IH[OF rest this] same show ?case by simp
qed

lemma scan_from_keyword:
  assumes "scan env kw s (kw # ts) = Inr s'"
  shows "keyword_variant kw =
           Some (EditMemoryRequest_MemoryType s', EditMemoryRequest_ByteSize s')"
proof -
  from assms obtain s1 where s1: "loop_body env kw s kw = Inr s1"
    and rest: "scan env kw s1 ts = Inr s'"
    by (auto split: sum.splits)
  from s1 have v: "keyword_variant kw =
      Some (EditMemoryRequest_MemoryType s1, EditMemoryRequest_ByteSize s1)"
    by (auto simp: loop_body_def split: option.splits)
  from scan_keeps_variant[OF rest v] v show ?thesis by simp
qed

lemma loop_body_keyword:
  "loop_body env kw s kw =
     (case keyword_variant kw of
        None \<Rightarrow> Inl (ShowMessages UnknownError # CommandEditMemoryHelp)
      | Some (ty, width) \<Rightarrow>
          Inr (s\<lparr>EditMemoryRequest_MemoryType := ty, EditMemoryRequest_ByteSize := width\<rparr>))"
  by (simp add: loop_body_def split: option.splits)

lemma scan_skips_keyword:
  "scan env kw s (kw # pre @ kw # rest) = scan env kw s (kw # pre @ rest)"
proof (cases "scan env kw s (kw # pre)")
  case (Inl out)
  then have "scan env kw s ((kw # pre) @ kw # rest) = Inl out"
    and "scan env kw s ((kw # pre) @ rest) = Inl out"
    by (simp_all only: scan_append sum.case)
  then show ?thesis by simp
next
  case (Inr s1)
  from scan_from_keyword[OF Inr] have v: "keyword_variant kw =
      Some (EditMemoryRequest_MemoryType s1, EditMemoryRequest_ByteSize s1)" .
  then have "loop_body env kw s1 kw = Inr s1"
    by (simp add: loop_body_keyword)
  then have "scan env kw s1 (kw # rest) = scan env kw s1 rest" by simp
  moreover have "scan env kw s ((kw # pre) @ kw # rest) = scan env kw s1 (kw # rest)"
    and "scan env kw s ((kw # pre) @ rest) = scan env kw s1 rest"
    using Inr by (simp_all only: scan_append sum.case)
  ultimately show ?thesis by simp
qed

lemma spec64_90: "spec_ConvertStringToUInt64 ''90'' = Some 0x90"
  by (simp add: spec_ConvertStringToUInt64_def hex_parse_def hex_digit_def
      remove_hex_notation_def starts_with_def backtick_def backslash_def)

subsection \<open>A later token equal to the keyword\<close>

text \<open>
  C10.  A token whose text equals the first token is taken by the keyword branch whatever
  the state of the scan: it only selects the memory type and the width again (or ends the
  command when the keyword is none of the six), and is never read as an address, a value, a
  \<open>pid\<close> marker or a process id.  Since the first token has made the same selection
  already, a stream scans the same with a later copy of the keyword as without it.  For
  the stream eb eb 90 the second eb is skipped, 90 becomes the address, and the command
  ends with the message that a value is missing.
\<close>

theorem keyword_token_selects_again:
  "loop_body env keyword s keyword =
     (case keyword_variant keyword of
        None \<Rightarrow> Inl (ShowMessages UnknownError # CommandEditMemoryHelp)
      | Some (ty, width) \<Rightarrow>
          Inr (s\<lparr>EditMemoryRequest_MemoryType := ty, EditMemoryRequest_ByteSize := width\<rparr>))
   \<and> scan env keyword s (keyword # pre @ keyword # rest) = scan env keyword s (keyword # pre @ rest)
   \<and> (ConvertStringToUInt64 env ''90'' \<noteq> None \<longrightarrow>
        CommandEditMemory env [''eb'', ''eb'', ''90''] =
          ShowMessages MissingValue # CommandEditMemoryHelp)"
proof (intro conjI impI)
  show "loop_body env keyword s keyword =
     (case keyword_variant keyword of
        None \<Rightarrow> Inl (ShowMessages UnknownError # CommandEditMemoryHelp)
      | Some (ty, width) \<Rightarrow>
          Inr (s\<lparr>EditMemoryRequest_MemoryType := ty, EditMemoryRequest_ByteSize := width\<rparr>))"
    by (rule loop_body_keyword)
  show "scan env keyword s (keyword # pre @ keyword # rest) = scan env keyword s (keyword # pre @ rest)"
    by (rule scan_skips_keyword)
  assume "ConvertStringToUInt64 env ''90'' \<noteq> None"
  then obtain a where a: "ConvertStringToUInt64 env ''90'' = Some a" by auto
  show "CommandEditMemory env [''eb'', ''eb'', ''90''] =
          ShowMessages MissingValue # CommandEditMemoryHelp"
    by (simp add: CommandEditMemory_def loop_body_def keyword_variant_def initial_locals_def a)
qed

theorem keyword_token_selects_again_witness:
  "CommandEditMemory sample_environment [''eb'', ''eb'', ''90''] =
     ShowMessages MissingValue # CommandEditMemoryHelp
   \<and> scan sample_environment ''eb'' (initial_locals sample_environment) [''eb'', ''1000'', ''eb'', ''90'']
     = scan sample_environment ''eb'' (initial_locals sample_environment) [''eb'', ''1000'', ''90'']"
proof -
  have "ConvertStringToUInt64 sample_environment ''90'' \<noteq> None"
    by (simp add: sample_environment_def spec64_90)
  with keyword_token_selects_again[of sample_environment "''eb''"
      "initial_locals sample_environment" "[''1000'']" "[''90'']"]
  show ?thesis by (simp del: scan.simps)
qed

subsection \<open>Validation after the scan\<close>

lemma help_prints_only:
  "\<not> list_ex is_malloc CommandEditMemoryHelp"
  "\<not> list_ex is_DeviceIoControl CommandEditMemoryHelp"
  by (auto simp: CommandEditMemoryHelp_def list_ex_iff)

lemma loop_body_return_prints_only:
  assumes "loop_body env kw s t = Inl out"
  shows "\<not> list_ex is_malloc out \<and> \<not> list_ex is_DeviceIoControl out"
  using assms
  by (auto simp: loop_body_def Let_def help_prints_only split: if_splits option.splits)

lemma scan_return_prints_only:
  assumes "scan env kw s ts = Inl out"
  shows "\<not> list_ex is_malloc out \<and> \<not> list_ex is_DeviceIoControl out"
  using assms
proof (induction ts arbitrary: s)
  case Nil
  then show ?case by simp
next
  case (Cons t ts)
  show ?case
  proof (cases "loop_body env kw s t")
    case (Inl out')
    with Cons.prems have "out' = out" by simp
    with Inl loop_body_return_prints_only show ?thesis by blast
  next
    case (Inr s1)
    with Cons.prems have "scan env kw s1 ts = Inl out" by simp
    then show ?thesis by (rule Cons.IH)
  qed
qed

lemma loop_body_SetProcId:
  "loop_body env kw s t = Inr s' \<Longrightarrow> SetProcId s' = SetProcId s"
  by (auto simp: loop_body_def Let_def split: if_splits option.splits)

lemma scan_SetProcId:
  "scan env kw s ts = Inr s' \<Longrightarrow> SetProcId s' = SetProcId s"
proof (induction ts arbitrary: s)
  case Nil
  then show ?case by simp
next
  case (Cons t ts)
  then obtain s1 where "loop_body env kw s t = Inr s1" "scan env kw s1 ts = Inr s'"
    by (auto split: sum.splits)
  with Cons.IH loop_body_SetProcId show ?case by metis
qed

lemma scan_initial_SetProcId:
  "scan env kw (initial_locals env) ts = Inr s \<Longrightarrow> \<not> SetProcId s"
  using scan_SetProcId[of env kw "initial_locals env" ts s]
  by (simp add: initial_locals_def)

lemma CommandEditMemory_validation:
  assumes "2 < length toks"
    and "scan env (toks ! 0) (initial_locals env) toks = Inr s"
    and "\<not> SetAddress s \<or> \<not> SetValue s \<or> NextIsProcId s"
  shows "CommandEditMemory env toks =
           ShowMessages (if \<not> SetAddress s then MissingAddress
                         else if \<not> SetValue s then MissingValue else MissingProcessId)
           # CommandEditMemoryHelp"
  using assms by (auto simp: CommandEditMemory_def)

lemma CommandEditMemory_early_return:
  assumes "2 < length toks"
    and "scan env (toks ! 0) (initial_locals env) toks = Inl out"
  shows "CommandEditMemory env toks = out"
  using assms by (simp add: CommandEditMemory_def)

lemma CommandEditMemory_transport_only_if:
  assumes "list_ex is_DeviceIoControl (CommandEditMemory env toks)"
  shows "\<exists>s. scan env (toks ! 0) (initial_locals env) toks = Inr s \<and>
              SetAddress s \<and> SetValue s \<and> \<not> NextIsProcId s"
proof (cases "length toks \<le> 2")
  case True
  with assms help_prints_only show ?thesis by (simp add: CommandEditMemory_def)
next
  case False
  show ?thesis
  proof (cases "scan env (toks ! 0) (initial_locals env) toks")
    case (Inl out)
    with False have "CommandEditMemory env toks = out" by (simp add: CommandEditMemory_def)
    with assms scan_return_prints_only[OF Inl] show ?thesis by simp
  next
    case (Inr s)
    have "SetAddress s \<and> SetValue s \<and> \<not> NextIsProcId s"
    proof (rule ccontr)
      assume "\<not> (SetAddress s \<and> SetValue s \<and> \<not> NextIsProcId s)"
      then have bad: "\<not> SetAddress s \<or> \<not> SetValue s \<or> NextIsProcId s" by blast
      from False have "2 < length toks" by simp
      from CommandEditMemory_validation[OF this Inr bad] assms help_prints_only
      show False by simp
    qed
    with Inr show ?thesis by simp
  qed
qed

text \<open>
  C5.  After the scan, a stream that set no address, or no value, or that ended while the
  id of a \<open>pid\<close> marker was still awaited, makes the command print the message of the
  first check that fails, followed by the help, and return: nothing is allocated and no
  control call is made.  A control call is made only for a stream whose scan ended with the
  address set, a value set and no id awaited.  A \<open>pid\<close> marker at the end of the stream
  leaves the id awaited; a \<open>pid\<close> marker followed by a token that is not a hex id ends
  the command inside the scan with the message about the process id.
\<close>

theorem post_scan_validation:
  "(2 < length SplittedCommand \<and>
    scan env (SplittedCommand ! 0) (initial_locals env) SplittedCommand = Inr s \<and>
    (\<not> SetAddress s \<or> \<not> SetValue s \<or> NextIsProcId s) \<longrightarrow>
      CommandEditMemory env SplittedCommand =
        ShowMessages (if \<not> SetAddress s then MissingAddress
                      else if \<not> SetValue s then MissingValue else MissingProcessId)
        # CommandEditMemoryHelp
      \<and> \<not> list_ex is_malloc (CommandEditMemory env SplittedCommand)
      \<and> \<not> list_ex is_DeviceIoControl (CommandEditMemory env SplittedCommand))
   \<and> (list_ex is_DeviceIoControl (CommandEditMemory env toks) \<longrightarrow>
        (\<exists>s'. scan env (toks ! 0) (initial_locals env) toks = Inr s' \<and>
              SetAddress s' \<and> SetValue s' \<and> \<not> NextIsProcId s'))
   \<and> (scan env keyword (initial_locals env) pre = Inr s1 \<and> \<not> NextIsProcId s1 \<and>
        keyword \<noteq> ''pid'' \<longrightarrow>
        scan env keyword (initial_locals env) (pre @ [''pid'']) = Inr (s1\<lparr>NextIsProcId := True\<rparr>)
        \<and> (Section \<noteq> keyword \<and> ConvertStringToUInt32 env Section = None \<longrightarrow>
             scan env keyword (initial_locals env) (pre @ ''pid'' # Section # rest) =
               Inl (ShowMessages BadProcessId # CommandEditMemoryHelp)))"
proof (intro conjI impI)
  assume a: "2 < length SplittedCommand \<and>
    scan env (SplittedCommand ! 0) (initial_locals env) SplittedCommand = Inr s \<and>
    (\<not> SetAddress s \<or> \<not> SetValue s \<or> NextIsProcId s)"
  then have eq: "CommandEditMemory env SplittedCommand =
        ShowMessages (if \<not> SetAddress s then MissingAddress
                      else if \<not> SetValue s then MissingValue else MissingProcessId)
        # CommandEditMemoryHelp"
    using CommandEditMemory_validation by blast
  then show "CommandEditMemory env SplittedCommand =
        ShowMessages (if \<not> SetAddress s then MissingAddress
                      else if \<not> SetValue s then MissingValue else MissingProcessId)
        # CommandEditMemoryHelp" .
  show "\<not> list_ex is_malloc (CommandEditMemory env SplittedCommand)"
    by (simp add: eq help_prints_only)
  show "\<not> list_ex is_DeviceIoControl (CommandEditMemory env SplittedCommand)"
    by (simp add: eq help_prints_only)
next
  assume "list_ex is_DeviceIoControl (CommandEditMemory env toks)"
  then show "\<exists>s'. scan env (toks ! 0) (initial_locals env) toks = Inr s' \<and>
              SetAddress s' \<and> SetValue s' \<and> \<not> NextIsProcId s'"
    by (rule CommandEditMemory_transport_only_if)
next
  assume b: "scan env keyword (initial_locals env) pre = Inr s1 \<and> \<not> NextIsProcId s1 \<and>
        keyword \<noteq> ''pid''"
  then have np: "\<not> SetProcId s1" using scan_initial_SetProcId by blast
  from b np have step: "loop_body env keyword s1 ''pid'' = Inr (s1\<lparr>NextIsProcId := True\<rparr>)"
    by (auto simp: loop_body_def)
  from b step show "scan env keyword (initial_locals env) (pre @ [''pid'']) =
      Inr (s1\<lparr>NextIsProcId := True\<rparr>)"
    by (simp add: scan_append)
  assume c: "Section \<noteq> keyword \<and> ConvertStringToUInt32 env Section = None"
  then have "loop_body env keyword (s1\<lparr>NextIsProcId := True\<rparr>) Section =
      Inl (ShowMessages BadProcessId # CommandEditMemoryHelp)"
    by (simp add: loop_body_def)
  with b step show "scan env keyword (initial_locals env) (pre @ ''pid'' # Section # rest) =
      Inl (ShowMessages BadProcessId # CommandEditMemoryHelp)"
    by (simp add: scan_append)
qed

lemmas sample_eval = loop_body_def keyword_variant_def sample_environment_def initial_locals_def
  spec_ConvertStringToUInt64_def spec_ConvertStringToUInt32_def hex_parse_def hex_digit_def
  remove_hex_notation_def starts_with_def backtick_def backslash_def

lemma sample_scan_pid_last:
  "scan sample_environment ''eb'' (initial_locals sample_environment)
     [''eb'', ''1000'', ''90'', ''pid''] =
   Inr \<lparr> EditMemoryRequest_MemoryType = EDIT_VIRTUAL_MEMORY,
         EditMemoryRequest_ByteSize = EDIT_BYTE,
         SetAddress = True, SetValue = True, SetProcId = False, NextIsProcId = True,
         Address_local = 0x1000, ProcId = 0x1A4, CountOfValues = 1, ValuesToEdit = [0x90] \<rparr>"
  by (simp add: sample_eval)

theorem post_scan_validation_witness:
  "CommandEditMemory sample_environment [''eb'', ''1000'', ''90'', ''pid''] =
     ShowMessages MissingProcessId # CommandEditMemoryHelp
   \<and> \<not> list_ex is_DeviceIoControl
         (CommandEditMemory sample_environment [''eb'', ''1000'', ''90'', ''pid''])"
  using post_scan_validation[of "[''eb'', ''1000'', ''90'', ''pid'']" sample_environment
      "\<lparr> EditMemoryRequest_MemoryType = EDIT_VIRTUAL_MEMORY,
         EditMemoryRequest_ByteSize = EDIT_BYTE,
         SetAddress = True, SetValue = True, SetProcId = False, NextIsProcId = True,
         Address_local = 0x1000, ProcId = 0x1A4, CountOfValues = 1, ValuesToEdit = [0x90] \<rparr>"]
    sample_scan_pid_last
  by (simp add: help_prints_only del: scan.simps)

subsection \<open>Values longer than the width\<close>

lemma loop_body_oversized:
  assumes "SetAddress s" "\<not> NextIsProcId s" "\<not> SetProcId s \<longrightarrow> Section \<noteq> ''pid''"
    and "Section \<noteq> keyword"
    and "(case EditMemoryRequest_ByteSize s of EDIT_BYTE \<Rightarrow> 3 | EDIT_DWORD \<Rightarrow> 9 | EDIT_QWORD \<Rightarrow> 17)
           \<le> length (remove_hex_notation Section)"
  shows "loop_body env keyword s Section =
           Inl [ShowMessages (case EditMemoryRequest_ByteSize s of
                                EDIT_BYTE \<Rightarrow> ByteValueExpected
                              | EDIT_DWORD \<Rightarrow> DwordValueExpected
                              | EDIT_QWORD \<Rightarrow> QwordValueExpected)]"
  using assms
  by (cases "EditMemoryRequest_ByteSize s") (auto simp: loop_body_def Let_def)

text \<open>
  C4.  For each of the six keywords, a token that the scan reaches as a value (the address
  is set, no process id is awaited, the token is neither the keyword nor \<open>pid\<close>) and
  whose length after removing the hex notation and the backticks is at least 3 for a byte
  command, 9 for a dword command and 17 for a qword command, ends the command at once: the
  iteration returns without adding a value, the command prints the message for the width and
  nothing else, and neither an allocation nor a control call is made.
\<close>

theorem oversized_value_aborts:
  assumes "keyword_variant keyword = Some (ty, width)"
    and "scan env keyword (initial_locals env) (keyword # pre) = Inr s"
    and "SetAddress s" and "\<not> NextIsProcId s"
    and "Section \<noteq> keyword" and "Section \<noteq> ''pid''"
    and "(case width of EDIT_BYTE \<Rightarrow> 3 | EDIT_DWORD \<Rightarrow> 9 | EDIT_QWORD \<Rightarrow> 17)
           \<le> length (remove_hex_notation Section)"
  shows "loop_body env keyword s Section =
           Inl [ShowMessages (case width of
                                EDIT_BYTE \<Rightarrow> ByteValueExpected
                              | EDIT_DWORD \<Rightarrow> DwordValueExpected
                              | EDIT_QWORD \<Rightarrow> QwordValueExpected)]
       \<and> CommandEditMemory env (keyword # pre @ Section # rest) =
           [ShowMessages (case width of
                            EDIT_BYTE \<Rightarrow> ByteValueExpected
                          | EDIT_DWORD \<Rightarrow> DwordValueExpected
                          | EDIT_QWORD \<Rightarrow> QwordValueExpected)]
       \<and> \<not> list_ex is_malloc (CommandEditMemory env (keyword # pre @ Section # rest))
       \<and> \<not> list_ex is_DeviceIoControl (CommandEditMemory env (keyword # pre @ Section # rest))"
proof -
  let ?msg = "ShowMessages (case width of
                              EDIT_BYTE \<Rightarrow> ByteValueExpected
                            | EDIT_DWORD \<Rightarrow> DwordValueExpected
                            | EDIT_QWORD \<Rightarrow> QwordValueExpected)"
  from scan_from_keyword[OF assms(2)] assms(1)
  have w: "EditMemoryRequest_ByteSize s = width" by simp
  have step: "loop_body env keyword s Section = Inl [?msg]"
    using loop_body_oversized[of s Section keyword env] assms(3-7) w by simp
  have "pre \<noteq> []"
  proof
    assume "pre = []"
    with assms(2) have "\<not> SetAddress s"
      by (auto simp: loop_body_def initial_locals_def split: option.splits)
    with assms(3) show False by simp
  qed
  then have len: "2 < length (keyword # pre @ Section # rest)"
    by (cases pre) simp_all
  have "scan env keyword (initial_locals env) ((keyword # pre) @ Section # rest) = Inl [?msg]"
    using assms(2) step by (simp only: scan_append sum.case scan.simps)
  then have sc: "scan env ((keyword # pre @ Section # rest) ! 0) (initial_locals env)
      (keyword # pre @ Section # rest) = Inl [?msg]" by simp
  have cmd: "CommandEditMemory env (keyword # pre @ Section # rest) = [?msg]"
    using CommandEditMemory_early_return[OF len sc] .
  show ?thesis
    using step cmd by simp
qed

lemma sample_scan_address:
  "scan sample_environment ''!ed'' (initial_locals sample_environment) [''!ed'', ''1000''] =
   Inr \<lparr> EditMemoryRequest_MemoryType = EDIT_PHYSICAL_MEMORY,
         EditMemoryRequest_ByteSize = EDIT_DWORD,
         SetAddress = True, SetValue = False, SetProcId = False, NextIsProcId = False,
         Address_local = 0x1000, ProcId = 0x1A4, CountOfValues = 0, ValuesToEdit = [] \<rparr>"
  by (simp add: sample_eval)

theorem oversized_value_aborts_witness:
  "CommandEditMemory sample_environment [''!ed'', ''1000'', ''0x123456789'', ''90''] =
     [ShowMessages DwordValueExpected]
   \<and> \<not> list_ex is_malloc
         (CommandEditMemory sample_environment [''!ed'', ''1000'', ''0x123456789'', ''90''])"
proof -
  have v: "keyword_variant ''!ed'' = Some (EDIT_PHYSICAL_MEMORY, EDIT_DWORD)"
    by (simp add: keyword_variant_def)
  have l: "(case EDIT_DWORD of EDIT_BYTE \<Rightarrow> 3 | EDIT_DWORD \<Rightarrow> 9 | EDIT_QWORD \<Rightarrow> 17)
           \<le> length (remove_hex_notation ''0x123456789'')"
    by (simp add: remove_hex_notation_def starts_with_def backtick_def)
  from oversized_value_aborts[OF v sample_scan_address _ _ _ _ l, of "[''90'']"]
  show ?thesis by simp
qed

subsection \<open>Size and layout of the final buffer\<close>

lemma length_bytes_of_UINT64: "length (bytes_of_UINT64 v) = 8"
  by (simp add: bytes_of_UINT64_def)

lemma length_concat_bytes: "length (concat (map bytes_of_UINT64 vals)) = 8 * length vals"
  by (induction vals) (simp_all add: length_bytes_of_UINT64)

lemma length_header_image: "length (header_image env r) = SIZEOF_DEBUGGER_EDIT_MEMORY env"
  by (simp add: header_image_def)

lemma loop_body_count:
  assumes "loop_body env kw s t = Inr s'"
    and "CountOfValues s = word_of_nat (length (ValuesToEdit s))"
    and "SetValue s \<longleftrightarrow> ValuesToEdit s \<noteq> []"
  shows "CountOfValues s' = word_of_nat (length (ValuesToEdit s')) \<and>
         (SetValue s' \<longleftrightarrow> ValuesToEdit s' \<noteq> [])"
  using assms
  by (auto simp: loop_body_def Let_def split: if_splits option.splits)

lemma scan_count:
  assumes "scan env kw s ts = Inr s'"
    and "CountOfValues s = word_of_nat (length (ValuesToEdit s))"
    and "SetValue s \<longleftrightarrow> ValuesToEdit s \<noteq> []"
  shows "CountOfValues s' = word_of_nat (length (ValuesToEdit s')) \<and>
         (SetValue s' \<longleftrightarrow> ValuesToEdit s' \<noteq> [])"
  using assms
proof (induction ts arbitrary: s)
  case Nil
  then show ?case by simp
next
  case (Cons t ts)
  from Cons.prems(1) obtain s1 where s1: "loop_body env kw s t = Inr s1"
    and rest: "scan env kw s1 ts = Inr s'"
    by (auto split: sum.splits)
  from loop_body_count[OF s1 Cons.prems(2,3)] Cons.IH[OF rest] show ?case by blast
qed

lemma scan_initial_count:
  assumes "scan env kw (initial_locals env) ts = Inr s"
  shows "CountOfValues s = word_of_nat (length (ValuesToEdit s))"
  using scan_count[OF assms] by (simp add: initial_locals_def)

lemma FinalSize_no_wrap:
  fixes L h :: nat
  assumes "h + 8 * L \<le> unat (word_of_nat (unat (word_of_nat L :: 32 word) * 8 + h) :: 32 word)"
  shows "unat (word_of_nat (unat (word_of_nat L :: 32 word) * 8 + h) :: 32 word) = h + 8 * L"
proof -
  let ?F = "unat (word_of_nat (unat (word_of_nat L :: 32 word) * 8 + h) :: 32 word)"
  have u: "unat (word_of_nat n :: 32 word) = n mod 2 ^ 32" for n
    by (simp add: unat_of_nat)
  have F: "?F = ((L mod 2 ^ 32) * 8 + h) mod 2 ^ 32"
    by (simp only: u)
  have "?F < 2 ^ 32" using unsigned_less[of "word_of_nat (unat (word_of_nat L :: 32 word) * 8 + h) :: 32 word"] by simp
  with assms have small: "h + 8 * L < 2 ^ 32" by linarith
  then have "L < 2 ^ 32" by linarith
  then have "L mod 2 ^ 32 = L" by simp
  with F small show ?thesis by (simp add: ac_simps)
qed

lemma fill_FinalBuffer_Some:
  assumes "fill_FinalBuffer env r vals F = Some buf"
  shows "SIZEOF_DEBUGGER_EDIT_MEMORY env + 8 * length vals \<le> unat F \<and>
         buf = header_image env r @ concat (map bytes_of_UINT64 vals) @
               replicate (unat F - (SIZEOF_DEBUGGER_EDIT_MEMORY env + 8 * length vals)) 0"
  using assms
  by (auto simp: fill_FinalBuffer_def write_at_def length_header_image length_concat_bytes
      split: option.splits if_splits)

lemma fill_FinalBuffer_exact:
  assumes "unat F = SIZEOF_DEBUGGER_EDIT_MEMORY env + 8 * length vals"
  shows "fill_FinalBuffer env r vals F =
           Some (header_image env r @ concat (map bytes_of_UINT64 vals))"
  using assms
  by (simp add: fill_FinalBuffer_def write_at_def length_header_image length_concat_bytes)

lemma CommandEditMemory_sends:
  assumes len: "2 < length toks"
    and sc: "scan env (toks ! 0) (initial_locals env) toks = Inr s"
    and ok: "SetAddress s" "SetValue s" "\<not> NextIsProcId s" "g_DeviceHandle env"
    and small: "SIZEOF_DEBUGGER_EDIT_MEMORY env + 8 * length (ValuesToEdit s) < 2 ^ 32"
    and F: "F = word_of_nat (SIZEOF_DEBUGGER_EDIT_MEMORY env + 8 * length (ValuesToEdit s))"
    and m: "malloc_succeeds env F"
    and buf: "buf = header_image env (fill_request s F) @
                    concat (map bytes_of_UINT64 (ValuesToEdit s))"
  shows "CommandEditMemory env toks =
           [malloc F, DeviceIoControl buf F] @
           (if DeviceIoControl_succeeds env buf F then []
            else [ShowMessages (IoctlFailed (GetLastError env))])"
proof -
  have u: "unat (word_of_nat n :: 32 word) = n mod 2 ^ 32" for n
    by (simp add: unat_of_nat)
  from small have "length (ValuesToEdit s) < 2 ^ 32" by linarith
  then have c: "unat (CountOfValues s) = length (ValuesToEdit s)"
    by (simp only: scan_initial_count[OF sc] u) simp
  have cF: "compute_FinalSize env s = F"
    by (simp add: compute_FinalSize_def c F ac_simps)
  have "unat F = SIZEOF_DEBUGGER_EDIT_MEMORY env + 8 * length (ValuesToEdit s)"
    using small by (simp only: F u) simp
  from fill_FinalBuffer_exact[OF this]
  have "fill_FinalBuffer env (fill_request s F) (ValuesToEdit s) F = Some buf"
    by (simp add: buf)
  with len sc ok cF m show ?thesis
    by (simp add: CommandEditMemory_def Let_def)
qed

lemma UINT64_of_bytes_range:
  "UINT64_of_bytes (map (\<lambda>i. ucast (drop_bit (8 * i) v)) [k..<k + n]) =
     take_bit (8 * n) (drop_bit (8 * k) (v :: 64 word))"
proof (induction n arbitrary: k)
  case 0
  then show ?case by (simp add: UINT64_of_bytes_def)
next
  case (Suc n)
  have "[k..<k + Suc n] = k # [Suc k..<Suc k + n]"
    by (simp add: upt_rec)
  then have "UINT64_of_bytes (map (\<lambda>i. ucast (drop_bit (8 * i) v)) [k..<k + Suc n]) =
      ucast (ucast (drop_bit (8 * k) v) :: 8 word) OR
      push_bit 8 (UINT64_of_bytes (map (\<lambda>i. ucast (drop_bit (8 * i) v)) [Suc k..<Suc k + n]))"
    by (simp add: UINT64_of_bytes_def)
  also have "\<dots> = ucast (ucast (drop_bit (8 * k) v) :: 8 word) OR
      push_bit 8 (take_bit (8 * n) (drop_bit (8 * Suc k) v))"
    by (simp only: Suc.IH)
  also have "\<dots> = take_bit (8 * Suc n) (drop_bit (8 * k) v)"
    by (rule bit_word_eqI) (auto simp: bit_simps)
  finally show ?case .
qed

lemma UINT64_of_bytes_of_UINT64: "UINT64_of_bytes (bytes_of_UINT64 v) = v"
  using UINT64_of_bytes_range[of v 0 8]
  by (simp add: bytes_of_UINT64_def take_bit_word_eq_self)

lemma scan_value_tokens:
  assumes "scan env kw s ts = Inr s'" and "\<not> SetProcId s"
  shows "map Some (ValuesToEdit s') =
           map Some (ValuesToEdit s) @
           map (\<lambda>t. ConvertStringToUInt64 env (remove_hex_notation t))
             (value_tokens kw (NextIsProcId s) (SetAddress s) ts)"
  using assms
proof (induction ts arbitrary: s)
  case Nil
  then show ?case by simp
next
  case (Cons t ts)
  from Cons.prems(1) obtain s1 where s1: "loop_body env kw s t = Inr s1"
    and rest: "scan env kw s1 ts = Inr s'"
    by (auto split: sum.splits)
  from loop_body_SetProcId[OF s1] Cons.prems(2) have np: "\<not> SetProcId s1" by simp
  note IH = Cons.IH[OF rest np]
  from s1 Cons.prems(2)
  have "map Some (ValuesToEdit s1) @
          map (\<lambda>t. ConvertStringToUInt64 env (remove_hex_notation t))
            (value_tokens kw (NextIsProcId s1) (SetAddress s1) ts) =
        map Some (ValuesToEdit s) @
          map (\<lambda>t. ConvertStringToUInt64 env (remove_hex_notation t))
            (value_tokens kw (NextIsProcId s) (SetAddress s) (t # ts))"
    by (auto simp: loop_body_def Let_def split: if_splits option.splits)
  with IH show ?case by simp
qed

lemma concat_slot:
  assumes "i < length vs"
  shows "take 8 (drop (8 * i) (concat (map bytes_of_UINT64 vs))) = bytes_of_UINT64 (vs ! i)"
  using assms
proof (induction vs arbitrary: i)
  case Nil
  then show ?case by simp
next
  case (Cons v vs)
  show ?case
  proof (cases i)
    case 0
    then show ?thesis by (simp add: length_bytes_of_UINT64)
  next
    case (Suc j)
    with Cons.prems have "j < length vs" by simp
    from Cons.IH[OF this] Suc show ?thesis
      by (simp add: length_bytes_of_UINT64)
  qed
qed

lemma sent_request_layout:
  assumes "DeviceIoControl FinalBuffer FinalSize \<in> set (CommandEditMemory env SplittedCommand)"
  shows "\<exists>s. scan env (SplittedCommand ! 0) (initial_locals env) SplittedCommand = Inr s
           \<and> unat FinalSize = SIZEOF_DEBUGGER_EDIT_MEMORY env + 8 * length (ValuesToEdit s)
           \<and> length (ValuesToEdit s) < 2 ^ 32
           \<and> FinalBuffer = header_image env (fill_request s FinalSize) @
                            concat (map bytes_of_UINT64 (ValuesToEdit s))"
proof -
  from assms have "list_ex is_DeviceIoControl (CommandEditMemory env SplittedCommand)"
    unfolding list_ex_iff using is_DeviceIoControl.simps(1) by blast
  from CommandEditMemory_transport_only_if[OF this]
  obtain s where sc: "scan env (SplittedCommand ! 0) (initial_locals env) SplittedCommand = Inr s"
    and ok: "SetAddress s" "SetValue s" "\<not> NextIsProcId s" by blast
  have len: "2 < length SplittedCommand"
  proof (rule ccontr)
    assume "\<not> 2 < length SplittedCommand"
    then have "CommandEditMemory env SplittedCommand = ShowMessages IncorrectUse # CommandEditMemoryHelp"
      by (simp add: CommandEditMemory_def)
    with assms show False by (auto simp: CommandEditMemoryHelp_def)
  qed
  let ?F = "compute_FinalSize env s"
  let ?h = "SIZEOF_DEBUGGER_EDIT_MEMORY env"
  let ?vals = "ValuesToEdit s"
  from assms len sc ok
  have F: "FinalSize = ?F"
    and fb: "fill_FinalBuffer env (fill_request s ?F) ?vals ?F = Some FinalBuffer"
    by (auto simp: CommandEditMemory_def Let_def split: if_splits option.splits)
  from fill_FinalBuffer_Some[OF fb]
  have le: "?h + 8 * length ?vals \<le> unat ?F"
    and b: "FinalBuffer = header_image env (fill_request s ?F) @ concat (map bytes_of_UINT64 ?vals) @
               replicate (unat ?F - (?h + 8 * length ?vals)) 0" by simp_all
  have size: "unat ?F = ?h + 8 * length ?vals"
    using le FinalSize_no_wrap[of ?h "length ?vals"]
    by (simp add: compute_FinalSize_def scan_initial_count[OF sc])
  with b have b': "FinalBuffer = header_image env (fill_request s ?F) @ concat (map bytes_of_UINT64 ?vals)"
    by simp
  have "unat ?F < 2 ^ 32" using unsigned_less[of ?F] by simp
  with size have "length ?vals < 2 ^ 32" by linarith
  with sc F size b' show ?thesis by auto
qed

text \<open>
  C1.  Whenever the command reaches the control call, the length handed to the driver (which
  is also the \<open>FinalStructureSize\<close> field of the header) is the size of the header plus
  8 bytes for each value token of the stream, whatever the width selected by the keyword;
  the buffer has exactly that length; it starts with the header, whose count field is the
  number of value tokens; and for each value token, in the order of the stream, the 8 bytes
  at offset header size plus 8 times its index, read as a \<open>UINT64\<close>, are the number
  that the token converts to.  Conversely, a stream that passes the scan and the checks,
  with the driver loaded, a successful allocation and a size below \<open>2 ^ 32\<close>, does
  reach the control call with that size.  (A stream with so many values that the 32-bit
  size wraps around ends in \<open>HeapOverflow\<close>, not in a control call.)
\<close>

theorem finalized_request_size_and_layout:
  "(DeviceIoControl FinalBuffer FinalSize \<in> set (CommandEditMemory env SplittedCommand) \<and>
    tokens = value_tokens (SplittedCommand ! 0) False False SplittedCommand \<longrightarrow>
      unat FinalSize = SIZEOF_DEBUGGER_EDIT_MEMORY env + 8 * length tokens
    \<and> length FinalBuffer = unat FinalSize
    \<and> (\<exists>s. scan env (SplittedCommand ! 0) (initial_locals env) SplittedCommand = Inr s
          \<and> map Some (ValuesToEdit s) =
              map (\<lambda>t. ConvertStringToUInt64 env (remove_hex_notation t)) tokens
          \<and> take (SIZEOF_DEBUGGER_EDIT_MEMORY env) FinalBuffer =
              header_image env (fill_request s FinalSize)
          \<and> FinalStructureSize (fill_request s FinalSize) = FinalSize
          \<and> unat (CountOf64Chunks (fill_request s FinalSize)) = length tokens
          \<and> drop (SIZEOF_DEBUGGER_EDIT_MEMORY env) FinalBuffer =
              concat (map bytes_of_UINT64 (ValuesToEdit s)))
    \<and> (\<forall>i < length tokens.
          ConvertStringToUInt64 env (remove_hex_notation (tokens ! i)) =
            Some (UINT64_of_bytes
                    (take 8 (drop (SIZEOF_DEBUGGER_EDIT_MEMORY env + 8 * i) FinalBuffer)))))
   \<and> (2 < length SplittedCommand \<and>
       scan env (SplittedCommand ! 0) (initial_locals env) SplittedCommand = Inr s \<and>
       SetAddress s \<and> SetValue s \<and> \<not> NextIsProcId s \<and> g_DeviceHandle env \<and>
       n = SIZEOF_DEBUGGER_EDIT_MEMORY env +
           8 * length (value_tokens (SplittedCommand ! 0) False False SplittedCommand) \<and>
       n < 2 ^ 32 \<and> malloc_succeeds env (word_of_nat n) \<longrightarrow>
         (\<exists>buf. DeviceIoControl buf (word_of_nat n)
                  \<in> set (CommandEditMemory env SplittedCommand)))"
proof (intro conjI impI)
  assume a: "DeviceIoControl FinalBuffer FinalSize \<in> set (CommandEditMemory env SplittedCommand) \<and>
    tokens = value_tokens (SplittedCommand ! 0) False False SplittedCommand"
  let ?h = "SIZEOF_DEBUGGER_EDIT_MEMORY env"
  let ?conv = "\<lambda>t. ConvertStringToUInt64 env (remove_hex_notation t)"
  from a sent_request_layout obtain s where
    sc: "scan env (SplittedCommand ! 0) (initial_locals env) SplittedCommand = Inr s"
    and size: "unat FinalSize = ?h + 8 * length (ValuesToEdit s)"
    and small: "length (ValuesToEdit s) < 2 ^ 32"
    and buf: "FinalBuffer = header_image env (fill_request s FinalSize) @
                            concat (map bytes_of_UINT64 (ValuesToEdit s))"
    by blast
  have "map Some (ValuesToEdit s) =
      map Some (ValuesToEdit (initial_locals env)) @
      map ?conv (value_tokens (SplittedCommand ! 0) (NextIsProcId (initial_locals env))
            (SetAddress (initial_locals env)) SplittedCommand)"
    by (rule scan_value_tokens[OF sc]) (simp add: initial_locals_def)
  with a have vt: "map Some (ValuesToEdit s) = map ?conv tokens"
    by (simp add: initial_locals_def)
  then have "length (map Some (ValuesToEdit s)) = length (map ?conv tokens)" by simp
  then have len: "length (ValuesToEdit s) = length tokens" by simp
  from size len show "unat FinalSize = ?h + 8 * length tokens" by simp
  from buf size show "length FinalBuffer = unat FinalSize"
    by (simp add: length_header_image length_concat_bytes)
  have cnt: "unat (CountOf64Chunks (fill_request s FinalSize)) = length tokens"
    using small len by (simp add: fill_request_def scan_initial_count[OF sc] unat_of_nat)
  from sc vt buf cnt
  show "\<exists>s. scan env (SplittedCommand ! 0) (initial_locals env) SplittedCommand = Inr s
          \<and> map Some (ValuesToEdit s) = map ?conv tokens
          \<and> take ?h FinalBuffer = header_image env (fill_request s FinalSize)
          \<and> FinalStructureSize (fill_request s FinalSize) = FinalSize
          \<and> unat (CountOf64Chunks (fill_request s FinalSize)) = length tokens
          \<and> drop ?h FinalBuffer = concat (map bytes_of_UINT64 (ValuesToEdit s))"
    by (intro exI[of _ s]) (simp add: length_header_image fill_request_def)
  show "\<forall>i < length tokens.
          ?conv (tokens ! i) = Some (UINT64_of_bytes (take 8 (drop (?h + 8 * i) FinalBuffer)))"
  proof (intro allI impI)
    fix i assume i: "i < length tokens"
    with len have i': "i < length (ValuesToEdit s)" by simp
    from vt have "map Some (ValuesToEdit s) ! i = map ?conv tokens ! i" by simp
    with i i' have c: "?conv (tokens ! i) = Some (ValuesToEdit s ! i)" by simp
    have "take 8 (drop (?h + 8 * i) FinalBuffer) = bytes_of_UINT64 (ValuesToEdit s ! i)"
      using concat_slot[OF i'] by (simp add: buf length_header_image)
    with c show "?conv (tokens ! i) =
        Some (UINT64_of_bytes (take 8 (drop (?h + 8 * i) FinalBuffer)))"
      by (simp add: UINT64_of_bytes_of_UINT64)
  qed
next
  assume b: "2 < length SplittedCommand \<and>
       scan env (SplittedCommand ! 0) (initial_locals env) SplittedCommand = Inr s \<and>
       SetAddress s \<and> SetValue s \<and> \<not> NextIsProcId s \<and> g_DeviceHandle env \<and>
       n = SIZEOF_DEBUGGER_EDIT_MEMORY env +
           8 * length (value_tokens (SplittedCommand ! 0) False False SplittedCommand) \<and>
       n < 2 ^ 32 \<and> malloc_succeeds env (word_of_nat n)"
  let ?conv = "\<lambda>t. ConvertStringToUInt64 env (remove_hex_notation t)"
  from b have sc: "scan env (SplittedCommand ! 0) (initial_locals env) SplittedCommand = Inr s"
    by simp
  have "map Some (ValuesToEdit s) =
      map Some (ValuesToEdit (initial_locals env)) @
      map ?conv (value_tokens (SplittedCommand ! 0) (NextIsProcId (initial_locals env))
            (SetAddress (initial_locals env)) SplittedCommand)"
    by (rule scan_value_tokens[OF sc]) (simp add: initial_locals_def)
  then have "length (map Some (ValuesToEdit s)) =
      length (map ?conv (value_tokens (SplittedCommand ! 0) False False SplittedCommand))"
    by (simp add: initial_locals_def)
  then have len: "length (ValuesToEdit s) =
      length (value_tokens (SplittedCommand ! 0) False False SplittedCommand)" by simp
  with b have n: "n = SIZEOF_DEBUGGER_EDIT_MEMORY env + 8 * length (ValuesToEdit s)" by simp
  from b n have small: "SIZEOF_DEBUGGER_EDIT_MEMORY env + 8 * length (ValuesToEdit s) < 2 ^ 32"
    by simp
  from b n have F: "word_of_nat n =
      (word_of_nat (SIZEOF_DEBUGGER_EDIT_MEMORY env + 8 * length (ValuesToEdit s)) :: 32 word)"
    by simp
  from b have ok: "2 < length SplittedCommand" "SetAddress s" "SetValue s" "\<not> NextIsProcId s"
    "g_DeviceHandle env" "malloc_succeeds env (word_of_nat n)" by blast+
  from CommandEditMemory_sends[OF ok(1) sc ok(2,3,4,5) small F ok(6) refl]
  show "\<exists>buf. DeviceIoControl buf (word_of_nat n) \<in> set (CommandEditMemory env SplittedCommand)"
    by auto
qed

lemma UINT32_of_bytes_range:
  "UINT32_of_bytes (map (\<lambda>i. ucast (drop_bit (8 * i) v)) [k..<k + n]) =
     take_bit (8 * n) (drop_bit (8 * k) (v :: 32 word))"
proof (induction n arbitrary: k)
  case 0
  then show ?case by (simp add: UINT32_of_bytes_def)
next
  case (Suc n)
  have "[k..<k + Suc n] = k # [Suc k..<Suc k + n]"
    by (simp add: upt_rec)
  then have "UINT32_of_bytes (map (\<lambda>i. ucast (drop_bit (8 * i) v)) [k..<k + Suc n]) =
      ucast (ucast (drop_bit (8 * k) v) :: 8 word) OR
      push_bit 8 (UINT32_of_bytes (map (\<lambda>i. ucast (drop_bit (8 * i) v)) [Suc k..<Suc k + n]))"
    by (simp add: UINT32_of_bytes_def)
  also have "\<dots> = ucast (ucast (drop_bit (8 * k) v) :: 8 word) OR
      push_bit 8 (take_bit (8 * n) (drop_bit (8 * Suc k) v))"
    by (simp only: Suc.IH)
  also have "\<dots> = take_bit (8 * Suc n) (drop_bit (8 * k) v)"
    by (rule bit_word_eqI) (auto simp: bit_simps)
  finally show ?case .
qed

lemma UINT32_of_bytes_of_UINT32: "UINT32_of_bytes (bytes_of_UINT32 v) = v"
  using UINT32_of_bytes_range[of v 0 4]
  by (simp add: bytes_of_UINT32_def take_bit_word_eq_self)

lemma length_bytes_of_UINT32: "length (bytes_of_UINT32 v) = 4"
  by (simp add: bytes_of_UINT32_def)

lemma map_nth_range:
  assumes "i + n \<le> length xs"
  shows "map (nth xs) [i..<i + n] = take n (drop i xs)"
  using assms by (simp add: list_eq_iff_nth_eq)

lemma header_image_field:
  assumes "i + n \<le> SIZEOF_DEBUGGER_EDIT_MEMORY env"
  shows "take n (drop i (header_image env r @ rest)) = map (request_byte env r) [i..<i + n]"
  using assms by (simp add: header_image_def drop_map take_map)

lemma sample_header_ProcessId:
  "take 4 (drop 8 (header_image sample_environment r @ rest)) = bytes_of_UINT32 (ProcessId r)"
proof -
  have "take 4 (drop 8 (header_image sample_environment r @ rest)) =
      map (request_byte sample_environment r) [8..<8 + 4]"
    by (rule header_image_field) (simp add: sample_environment_def)
  also have "\<dots> = map (nth (sample_header_bytes r)) [8..<8 + 4]"
    by (simp add: sample_environment_def)
  also have "\<dots> = take 4 (drop 8 (sample_header_bytes r))"
    by (rule map_nth_range)
      (simp add: sample_header_bytes_def length_bytes_of_UINT64 length_bytes_of_UINT32)
  also have "\<dots> = bytes_of_UINT32 (ProcessId r)"
    by (simp add: sample_header_bytes_def length_bytes_of_UINT64 length_bytes_of_UINT32)
  finally show ?thesis .
qed

lemma sample_sends:
  assumes len: "2 < length toks"
    and sc: "scan sample_environment (toks ! 0) (initial_locals sample_environment) toks = Inr s"
    and ok: "SetAddress s" "SetValue s" "\<not> NextIsProcId s"
    and small: "32 + 8 * length (ValuesToEdit s) < (2 :: nat) ^ 32"
    and F: "F = word_of_nat (32 + 8 * length (ValuesToEdit s))"
  shows "CommandEditMemory sample_environment toks =
           [malloc F,
            DeviceIoControl
              (header_image sample_environment (fill_request s F) @
               concat (map bytes_of_UINT64 (ValuesToEdit s))) F]"
proof -
  have h: "SIZEOF_DEBUGGER_EDIT_MEMORY sample_environment = 32"
    and d: "g_DeviceHandle sample_environment"
    and m: "malloc_succeeds sample_environment F"
    and i: "DeviceIoControl_succeeds sample_environment b F" for b
    by (simp_all add: sample_environment_def)
  from small h
  have 3: "SIZEOF_DEBUGGER_EDIT_MEMORY sample_environment + 8 * length (ValuesToEdit s) < 2 ^ 32"
    by simp
  from F h
  have 4: "F = word_of_nat
      (SIZEOF_DEBUGGER_EDIT_MEMORY sample_environment + 8 * length (ValuesToEdit s))"
    by simp
  from CommandEditMemory_sends[OF len sc ok d 3 4 m refl] show ?thesis
    by (simp only: i if_True append_Nil2)
qed

lemma sample_scan_three_values:
  "scan sample_environment ''eb'' (initial_locals sample_environment)
     [''eb'', ''1000'', ''90'', ''91'', ''92''] =
   Inr \<lparr> EditMemoryRequest_MemoryType = EDIT_VIRTUAL_MEMORY,
         EditMemoryRequest_ByteSize = EDIT_BYTE,
         SetAddress = True, SetValue = True, SetProcId = False, NextIsProcId = False,
         Address_local = 0x1000, ProcId = 0x1A4, CountOfValues = 3,
         ValuesToEdit = [0x90, 0x91, 0x92] \<rparr>"
  by (simp add: sample_eval)

lemma sample_command_three_values:
  "CommandEditMemory sample_environment [''eb'', ''1000'', ''90'', ''91'', ''92''] =
     [malloc 56,
      DeviceIoControl
        (header_image sample_environment
           \<lparr> Address = 0x1000, ProcessId = 0x1A4, MemoryType = EDIT_VIRTUAL_MEMORY,
             ByteSize = EDIT_BYTE, CountOf64Chunks = 3, FinalStructureSize = 56 \<rparr>
         @ bytes_of_UINT64 0x90 @ bytes_of_UINT64 0x91 @ bytes_of_UINT64 0x92)
        56]"
proof -
  have sc: "scan sample_environment ([''eb'', ''1000'', ''90'', ''91'', ''92''] ! 0)
      (initial_locals sample_environment) [''eb'', ''1000'', ''90'', ''91'', ''92''] =
    Inr \<lparr> EditMemoryRequest_MemoryType = EDIT_VIRTUAL_MEMORY,
         EditMemoryRequest_ByteSize = EDIT_BYTE,
         SetAddress = True, SetValue = True, SetProcId = False, NextIsProcId = False,
         Address_local = 0x1000, ProcId = 0x1A4, CountOfValues = 3,
         ValuesToEdit = [0x90, 0x91, 0x92] \<rparr>"
    using sample_scan_three_values by simp
  have "CommandEditMemory sample_environment [''eb'', ''1000'', ''90'', ''91'', ''92''] =
      [malloc 56,
       DeviceIoControl
         (header_image sample_environment
            (fill_request
               \<lparr> EditMemoryRequest_MemoryType = EDIT_VIRTUAL_MEMORY,
                 EditMemoryRequest_ByteSize = EDIT_BYTE,
                 SetAddress = True, SetValue = True, SetProcId = False, NextIsProcId = False,
                 Address_local = 0x1000, ProcId = 0x1A4, CountOfValues = 3,
                 ValuesToEdit = [0x90, 0x91, 0x92] \<rparr> 56) @
          concat (map bytes_of_UINT64
            (ValuesToEdit
               \<lparr> EditMemoryRequest_MemoryType = EDIT_VIRTUAL_MEMORY,
                 EditMemoryRequest_ByteSize = EDIT_BYTE,
                 SetAddress = True, SetValue = True, SetProcId = False, NextIsProcId = False,
                 Address_local = 0x1000, ProcId = 0x1A4, CountOfValues = 3,
                 ValuesToEdit = [0x90, 0x91, 0x92] \<rparr>))) 56]"
    by (rule sample_sends[OF _ sc]) simp_all
  then show ?thesis by (simp add: fill_request_def)
qed

theorem finalized_request_size_and_layout_witness:
  "DeviceIoControl
     (header_image sample_environment
        \<lparr> Address = 0x1000, ProcessId = 0x1A4, MemoryType = EDIT_VIRTUAL_MEMORY,
          ByteSize = EDIT_BYTE, CountOf64Chunks = 3, FinalStructureSize = 56 \<rparr>
      @ bytes_of_UINT64 0x90 @ bytes_of_UINT64 0x91 @ bytes_of_UINT64 0x92) 56
     \<in> set (CommandEditMemory sample_environment [''eb'', ''1000'', ''90'', ''91'', ''92''])
   \<and> value_tokens ''eb'' False False [''eb'', ''1000'', ''90'', ''91'', ''92''] =
       [''90'', ''91'', ''92'']
   \<and> unat (56 :: 32 word) = SIZEOF_DEBUGGER_EDIT_MEMORY sample_environment + 8 * 3
   \<and> UINT64_of_bytes (take 8 (drop (SIZEOF_DEBUGGER_EDIT_MEMORY sample_environment + 8 * 2)
        (header_image sample_environment
           \<lparr> Address = 0x1000, ProcessId = 0x1A4, MemoryType = EDIT_VIRTUAL_MEMORY,
             ByteSize = EDIT_BYTE, CountOf64Chunks = 3, FinalStructureSize = 56 \<rparr>
         @ bytes_of_UINT64 0x90 @ bytes_of_UINT64 0x91 @ bytes_of_UINT64 0x92))) = 0x92"
proof -
  let ?toks = "[''eb'', ''1000'', ''90'', ''91'', ''92'']"
  let ?B = "header_image sample_environment
        \<lparr> Address = 0x1000, ProcessId = 0x1A4, MemoryType = EDIT_VIRTUAL_MEMORY,
          ByteSize = EDIT_BYTE, CountOf64Chunks = 3, FinalStructureSize = 56 \<rparr>
      @ bytes_of_UINT64 0x90 @ bytes_of_UINT64 0x91 @ bytes_of_UINT64 0x92"
  have sent: "DeviceIoControl ?B 56 \<in> set (CommandEditMemory sample_environment ?toks)"
    by (simp add: sample_command_three_values)
  have vt: "value_tokens ''eb'' False False ?toks = [''90'', ''91'', ''92'']"
    by simp
  then have vt': "[''90'', ''91'', ''92''] = value_tokens (?toks ! 0) False False ?toks"
    by simp
  note t = finalized_request_size_and_layout[of ?B 56 sample_environment ?toks
      "[''90'', ''91'', ''92'']", THEN conjunct1, THEN mp, OF conjI, OF sent vt']
  from t have size: "unat (56 :: 32 word) =
      SIZEOF_DEBUGGER_EDIT_MEMORY sample_environment + 8 * length [''90'', ''91'', ''92'']"
    by (rule conjunct1)
  from t[THEN conjunct2, THEN conjunct2, THEN conjunct2] have slots: "\<forall>i < length [''90'', ''91'', ''92''].
      ConvertStringToUInt64 sample_environment
        (remove_hex_notation ([''90'', ''91'', ''92''] ! i)) =
      Some (UINT64_of_bytes
              (take 8 (drop (SIZEOF_DEBUGGER_EDIT_MEMORY sample_environment + 8 * i) ?B)))"
    .
  have c: "ConvertStringToUInt64 sample_environment (remove_hex_notation ''92'') = Some 0x92"
    by (simp add: sample_environment_def spec_ConvertStringToUInt64_def hex_parse_def
        hex_digit_def remove_hex_notation_def starts_with_def backtick_def backslash_def)
  have two: "2 < length [''90'', ''91'', ''92'']" and nth: "[''90'', ''91'', ''92''] ! 2 = ''92''"
    by simp_all
  from slots[rule_format, OF two]
  have "ConvertStringToUInt64 sample_environment (remove_hex_notation ''92'') =
      Some (UINT64_of_bytes
              (take 8 (drop (SIZEOF_DEBUGGER_EDIT_MEMORY sample_environment + 8 * 2) ?B)))"
    by (simp only: nth)
  from trans[OF this[symmetric] c]
  have slot: "UINT64_of_bytes
      (take 8 (drop (SIZEOF_DEBUGGER_EDIT_MEMORY sample_environment + 8 * 2) ?B)) = 0x92"
    by (simp only: option.inject)
  have three: "length [''90'', ''91'', ''92''] = 3" by simp
  from sent vt size[unfolded three] slot show ?thesis by (intro conjI)

qed

subsection \<open>The pid marker\<close>

lemma sample_scan_two_pid_pairs:
  "scan sample_environment ''eb'' (initial_locals sample_environment)
     [''eb'', ''pid'', ''1'', ''pid'', ''2'', ''1000'', ''90''] =
   Inr \<lparr> EditMemoryRequest_MemoryType = EDIT_VIRTUAL_MEMORY,
         EditMemoryRequest_ByteSize = EDIT_BYTE,
         SetAddress = True, SetValue = True, SetProcId = False, NextIsProcId = False,
         Address_local = 0x1000, ProcId = 2, CountOfValues = 1, ValuesToEdit = [0x90] \<rparr>"
  by (simp add: sample_eval)

lemma sample_scan_one_pid_pair:
  "scan sample_environment ''eb'' (initial_locals sample_environment)
     [''eb'', ''pid'', ''1'', ''1000'', ''90''] =
   Inr \<lparr> EditMemoryRequest_MemoryType = EDIT_VIRTUAL_MEMORY,
         EditMemoryRequest_ByteSize = EDIT_BYTE,
         SetAddress = True, SetValue = True, SetProcId = False, NextIsProcId = False,
         Address_local = 0x1000, ProcId = 1, CountOfValues = 1, ValuesToEdit = [0x90] \<rparr>"
  by (simp add: sample_eval)

lemma sample_command_two_pid_pairs:
  "CommandEditMemory sample_environment
     [''eb'', ''pid'', ''1'', ''pid'', ''2'', ''1000'', ''90''] =
     [malloc 40,
      DeviceIoControl
        (header_image sample_environment
           \<lparr> Address = 0x1000, ProcessId = 2, MemoryType = EDIT_VIRTUAL_MEMORY,
             ByteSize = EDIT_BYTE, CountOf64Chunks = 1, FinalStructureSize = 40 \<rparr>
         @ bytes_of_UINT64 0x90)
        40]"
proof -
  let ?toks = "[''eb'', ''pid'', ''1'', ''pid'', ''2'', ''1000'', ''90'']"
  let ?s = "\<lparr> EditMemoryRequest_MemoryType = EDIT_VIRTUAL_MEMORY,
         EditMemoryRequest_ByteSize = EDIT_BYTE,
         SetAddress = True, SetValue = True, SetProcId = False, NextIsProcId = False,
         Address_local = 0x1000, ProcId = 2, CountOfValues = 1, ValuesToEdit = [0x90] \<rparr>"
  have sc: "scan sample_environment (?toks ! 0) (initial_locals sample_environment) ?toks = Inr ?s"
    using sample_scan_two_pid_pairs by simp
  have "CommandEditMemory sample_environment ?toks =
      [malloc 40,
       DeviceIoControl
         (header_image sample_environment (fill_request ?s 40) @
          concat (map bytes_of_UINT64 (ValuesToEdit ?s))) 40]"
    by (rule sample_sends[OF _ sc]) simp_all
  then show ?thesis by (simp add: fill_request_def)
qed

lemma sample_command_one_pid_pair:
  "CommandEditMemory sample_environment [''eb'', ''pid'', ''1'', ''1000'', ''90''] =
     [malloc 40,
      DeviceIoControl
        (header_image sample_environment
           \<lparr> Address = 0x1000, ProcessId = 1, MemoryType = EDIT_VIRTUAL_MEMORY,
             ByteSize = EDIT_BYTE, CountOf64Chunks = 1, FinalStructureSize = 40 \<rparr>
         @ bytes_of_UINT64 0x90)
        40]"
proof -
  let ?toks = "[''eb'', ''pid'', ''1'', ''1000'', ''90'']"
  let ?s = "\<lparr> EditMemoryRequest_MemoryType = EDIT_VIRTUAL_MEMORY,
         EditMemoryRequest_ByteSize = EDIT_BYTE,
         SetAddress = True, SetValue = True, SetProcId = False, NextIsProcId = False,
         Address_local = 0x1000, ProcId = 1, CountOfValues = 1, ValuesToEdit = [0x90] \<rparr>"
  have sc: "scan sample_environment (?toks ! 0) (initial_locals sample_environment) ?toks = Inr ?s"
    using sample_scan_one_pid_pair by simp
  have "CommandEditMemory sample_environment ?toks =
      [malloc 40,
       DeviceIoControl
         (header_image sample_environment (fill_request ?s 40) @
          concat (map bytes_of_UINT64 (ValuesToEdit ?s))) 40]"
    by (rule sample_sends[OF _ sc]) simp_all
  then show ?thesis by (simp add: fill_request_def)
qed

lemma sample_header_ProcessId_read:
  "UINT32_of_bytes (take 4 (drop 8 (header_image sample_environment r @ rest))) = ProcessId r"
  by (simp only: sample_header_ProcessId UINT32_of_bytes_of_UINT32)

text \<open>
  C2.  The claim is that a \<open>pid\<close> marker counts only the first time, so that a second
  \<open>pid\<close> pair cannot change the process id of the request.  The test of the marker on
  line 107 is guarded by \<open>SetProcId\<close>, but no line of the function sets that flag
  (\<open>scan_initial_SetProcId\<close>), so every marker counts.  On the stream
  eb pid 1 pid 2 1000 90 the second pair is read as a pair again: the scan ends with the
  process id 2, and the process id read back from the header that is sent is 2, where the
  stream eb pid 1 1000 90 sends 1; the two requests differ.
\<close>

theorem second_pid_pair_sets_process_id:
  "scan sample_environment ''eb'' (initial_locals sample_environment)
     [''eb'', ''pid'', ''1'', ''pid'', ''2'', ''1000'', ''90''] =
   Inr \<lparr> EditMemoryRequest_MemoryType = EDIT_VIRTUAL_MEMORY,
         EditMemoryRequest_ByteSize = EDIT_BYTE,
         SetAddress = True, SetValue = True, SetProcId = False, NextIsProcId = False,
         Address_local = 0x1000, ProcId = 2, CountOfValues = 1, ValuesToEdit = [0x90] \<rparr>
   \<and> CommandEditMemory sample_environment
       [''eb'', ''pid'', ''1'', ''pid'', ''2'', ''1000'', ''90''] =
       [malloc 40,
        DeviceIoControl
          (header_image sample_environment
             \<lparr> Address = 0x1000, ProcessId = 2, MemoryType = EDIT_VIRTUAL_MEMORY,
               ByteSize = EDIT_BYTE, CountOf64Chunks = 1, FinalStructureSize = 40 \<rparr>
           @ bytes_of_UINT64 0x90)
          40]
   \<and> UINT32_of_bytes (take 4 (drop 8
         (header_image sample_environment
            \<lparr> Address = 0x1000, ProcessId = 2, MemoryType = EDIT_VIRTUAL_MEMORY,
              ByteSize = EDIT_BYTE, CountOf64Chunks = 1, FinalStructureSize = 40 \<rparr>
          @ bytes_of_UINT64 0x90))) = 2
   \<and> CommandEditMemory sample_environment [''eb'', ''pid'', ''1'', ''1000'', ''90''] =
       [malloc 40,
        DeviceIoControl
          (header_image sample_environment
             \<lparr> Address = 0x1000, ProcessId = 1, MemoryType = EDIT_VIRTUAL_MEMORY,
               ByteSize = EDIT_BYTE, CountOf64Chunks = 1, FinalStructureSize = 40 \<rparr>
           @ bytes_of_UINT64 0x90)
          40]
   \<and> UINT32_of_bytes (take 4 (drop 8
         (header_image sample_environment
            \<lparr> Address = 0x1000, ProcessId = 1, MemoryType = EDIT_VIRTUAL_MEMORY,
              ByteSize = EDIT_BYTE, CountOf64Chunks = 1, FinalStructureSize = 40 \<rparr>
          @ bytes_of_UINT64 0x90))) = 1
   \<and> CommandEditMemory sample_environment
       [''eb'', ''pid'', ''1'', ''pid'', ''2'', ''1000'', ''90''] \<noteq>
     CommandEditMemory sample_environment [''eb'', ''pid'', ''1'', ''1000'', ''90'']"
proof -
  let ?r2 = "\<lparr> Address = 0x1000, ProcessId = 2, MemoryType = EDIT_VIRTUAL_MEMORY,
               ByteSize = EDIT_BYTE, CountOf64Chunks = 1, FinalStructureSize = 40 \<rparr>"
  let ?r1 = "\<lparr> Address = 0x1000, ProcessId = 1, MemoryType = EDIT_VIRTUAL_MEMORY,
               ByteSize = EDIT_BYTE, CountOf64Chunks = 1, FinalStructureSize = 40 \<rparr>"
  let ?B2 = "header_image sample_environment ?r2 @ bytes_of_UINT64 0x90"
  let ?B1 = "header_image sample_environment ?r1 @ bytes_of_UINT64 0x90"
  have p2: "UINT32_of_bytes (take 4 (drop 8 ?B2)) = 2"
    and p1: "UINT32_of_bytes (take 4 (drop 8 ?B1)) = 1"
    by (simp_all only: sample_header_ProcessId_read) simp_all
  have "?B2 \<noteq> ?B1"
  proof
    assume "?B2 = ?B1"
    then have "UINT32_of_bytes (take 4 (drop 8 ?B2)) = UINT32_of_bytes (take 4 (drop 8 ?B1))"
      by (simp only:)
    with p2 p1 show False by (simp only:) simp
  qed
  then have ne: "CommandEditMemory sample_environment
       [''eb'', ''pid'', ''1'', ''pid'', ''2'', ''1000'', ''90''] \<noteq>
     CommandEditMemory sample_environment [''eb'', ''pid'', ''1'', ''1000'', ''90'']"
    by (simp only: sample_command_two_pid_pairs sample_command_one_pid_pair) simp
  from sample_scan_two_pid_pairs sample_command_two_pid_pairs p2
    sample_command_one_pid_pair p1 ne
  show ?thesis by (intro conjI)
qed

subsection \<open>Hex notation and backticks\<close>

lemma filter_absent: "c \<notin> set xs \<Longrightarrow> filter (\<lambda>x. x \<noteq> c) xs = xs"
  by (induction xs) auto

lemma starts_with_iff: "starts_with p s \<longleftrightarrow> (\<exists>r. s = p @ r)"
  unfolding starts_with_def
  by (metis append_eq_conv_conj append_take_drop_id)

lemma starts_with_filter:
  assumes "starts_with p body" and "backtick \<notin> set p"
  shows "starts_with p (filter (\<lambda>c. c \<noteq> backtick) body)"
proof -
  from assms(1) obtain r where "body = p @ r" unfolding starts_with_iff by blast
  moreover from assms(2) have "filter (\<lambda>c. c \<noteq> backtick) p = p"
    by (rule filter_absent)
  ultimately show ?thesis unfolding starts_with_iff by simp
qed

lemma hex_notations_no_backtick: "p \<in> set hex_notations \<Longrightarrow> backtick \<notin> set p"
  by (auto simp: hex_notations_def backtick_def backslash_def)

lemma remove_hex_notation_plain:
  assumes "list_all (\<lambda>p. \<not> starts_with p body) hex_notations"
  shows "remove_hex_notation body = filter (\<lambda>c. c \<noteq> backtick) body"
  using assms by (simp add: remove_hex_notation_def hex_notations_def)

lemma remove_hex_notation_undecorated:
  assumes "undecorated digits"
  shows "remove_hex_notation digits = digits"
proof -
  from assms have "filter (\<lambda>c. c \<noteq> backtick) digits = digits"
    by (simp add: undecorated_def filter_absent)
  with assms remove_hex_notation_plain show ?thesis
    by (simp add: undecorated_def)
qed

lemma remove_hex_notation_prefixed:
  assumes "p \<in> set hex_notations"
  shows "remove_hex_notation (p @ body) = filter (\<lambda>c. c \<noteq> backtick) body"
  using assms
  by (auto simp: hex_notations_def remove_hex_notation_def starts_with_def backslash_def)

lemma remove_hex_notation_decorated:
  assumes p: "p \<in> set hex_notations \<or> p = []"
    and u: "undecorated digits"
    and f: "filter (\<lambda>c. c \<noteq> backtick) body = digits"
  shows "remove_hex_notation (p @ body) = digits"
proof (cases "p = []")
  case False
  with p f show ?thesis by (simp add: remove_hex_notation_prefixed)
next
  case True
  have "list_all (\<lambda>q. \<not> starts_with q body) hex_notations"
    unfolding list_all_iff
  proof
    fix q assume q: "q \<in> set hex_notations"
    show "\<not> starts_with q body"
    proof
      assume "starts_with q body"
      from starts_with_filter[OF this hex_notations_no_backtick[OF q]] f
      have "starts_with q digits" by simp
      with u q show False by (simp add: undecorated_def list_all_iff)
    qed
  qed
  from remove_hex_notation_plain[OF this] True f show ?thesis by simp
qed

lemma sample_scan_decorated_eb:
  "scan sample_environment ''eb'' (initial_locals sample_environment)
     [''eb'', ''1000'', ''0xeb''] =
   Inr \<lparr> EditMemoryRequest_MemoryType = EDIT_VIRTUAL_MEMORY,
         EditMemoryRequest_ByteSize = EDIT_BYTE,
         SetAddress = True, SetValue = True, SetProcId = False, NextIsProcId = False,
         Address_local = 0x1000, ProcId = 0x1A4, CountOfValues = 1, ValuesToEdit = [0xEB] \<rparr>"
  by (simp add: sample_eval)

lemma sample_scan_plain_eb:
  "scan sample_environment ''eb'' (initial_locals sample_environment)
     [''eb'', ''1000'', ''eb''] =
   Inr \<lparr> EditMemoryRequest_MemoryType = EDIT_VIRTUAL_MEMORY,
         EditMemoryRequest_ByteSize = EDIT_BYTE,
         SetAddress = True, SetValue = False, SetProcId = False, NextIsProcId = False,
         Address_local = 0x1000, ProcId = 0x1A4, CountOfValues = 0, ValuesToEdit = [] \<rparr>"
  by (simp add: sample_eval)

lemma sample_command_decorated_eb:
  "CommandEditMemory sample_environment [''eb'', ''1000'', ''0xeb''] =
     [malloc 40,
      DeviceIoControl
        (header_image sample_environment
           \<lparr> Address = 0x1000, ProcessId = 0x1A4, MemoryType = EDIT_VIRTUAL_MEMORY,
             ByteSize = EDIT_BYTE, CountOf64Chunks = 1, FinalStructureSize = 40 \<rparr>
         @ bytes_of_UINT64 0xEB)
        40]"
proof -
  let ?toks = "[''eb'', ''1000'', ''0xeb'']"
  let ?s = "\<lparr> EditMemoryRequest_MemoryType = EDIT_VIRTUAL_MEMORY,
         EditMemoryRequest_ByteSize = EDIT_BYTE,
         SetAddress = True, SetValue = True, SetProcId = False, NextIsProcId = False,
         Address_local = 0x1000, ProcId = 0x1A4, CountOfValues = 1, ValuesToEdit = [0xEB] \<rparr>"
  have sc: "scan sample_environment (?toks ! 0) (initial_locals sample_environment) ?toks = Inr ?s"
    using sample_scan_decorated_eb by simp
  have "CommandEditMemory sample_environment ?toks =
      [malloc 40,
       DeviceIoControl
         (header_image sample_environment (fill_request ?s 40) @
          concat (map bytes_of_UINT64 (ValuesToEdit ?s))) 40]"
    by (rule sample_sends[OF _ sc]) simp_all
  then show ?thesis by (simp add: fill_request_def)
qed

lemma sample_command_plain_eb:
  "CommandEditMemory sample_environment [''eb'', ''1000'', ''eb''] =
     ShowMessages MissingValue # CommandEditMemoryHelp"
proof -
  let ?toks = "[''eb'', ''1000'', ''eb'']"
  have sc: "scan sample_environment (?toks ! 0) (initial_locals sample_environment) ?toks =
    Inr \<lparr> EditMemoryRequest_MemoryType = EDIT_VIRTUAL_MEMORY,
         EditMemoryRequest_ByteSize = EDIT_BYTE,
         SetAddress = True, SetValue = False, SetProcId = False, NextIsProcId = False,
         Address_local = 0x1000, ProcId = 0x1A4, CountOfValues = 0, ValuesToEdit = [] \<rparr>"
    using sample_scan_plain_eb by simp
  from CommandEditMemory_validation[OF _ sc] show ?thesis by simp
qed

text \<open>
  The claim as it stands, for every decorated token, fails when the digits are the keyword
  itself: eb is a string of hex digits, and under the keyword eb the decorated token 0xeb
  is stored as the value 0xEB, while the plain token eb is taken by the keyword branch
  (line 55), so that the stream eb 1000 0xeb sends a request and the stream eb 1000 eb ends
  with the message that a value is missing.
\<close>

theorem decorated_keyword_digits_parse_differently:
  "remove_hex_notation ''0xeb'' = ''eb'' \<and> undecorated ''eb''
   \<and> scan sample_environment ''eb'' (initial_locals sample_environment)
     [''eb'', ''1000'', ''0xeb''] =
   Inr \<lparr> EditMemoryRequest_MemoryType = EDIT_VIRTUAL_MEMORY,
         EditMemoryRequest_ByteSize = EDIT_BYTE,
         SetAddress = True, SetValue = True, SetProcId = False, NextIsProcId = False,
         Address_local = 0x1000, ProcId = 0x1A4, CountOfValues = 1, ValuesToEdit = [0xEB] \<rparr>
   \<and> scan sample_environment ''eb'' (initial_locals sample_environment)
     [''eb'', ''1000'', ''eb''] =
   Inr \<lparr> EditMemoryRequest_MemoryType = EDIT_VIRTUAL_MEMORY,
         EditMemoryRequest_ByteSize = EDIT_BYTE,
         SetAddress = True, SetValue = False, SetProcId = False, NextIsProcId = False,
         Address_local = 0x1000, ProcId = 0x1A4, CountOfValues = 0, ValuesToEdit = [] \<rparr>
   \<and> CommandEditMemory sample_environment [''eb'', ''1000'', ''0xeb''] =
     [malloc 40,
      DeviceIoControl
        (header_image sample_environment
           \<lparr> Address = 0x1000, ProcessId = 0x1A4, MemoryType = EDIT_VIRTUAL_MEMORY,
             ByteSize = EDIT_BYTE, CountOf64Chunks = 1, FinalStructureSize = 40 \<rparr>
         @ bytes_of_UINT64 0xEB)
        40]
   \<and> CommandEditMemory sample_environment [''eb'', ''1000'', ''eb''] =
     ShowMessages MissingValue # CommandEditMemoryHelp"
proof -
  have "remove_hex_notation ''0xeb'' = ''eb''"
    by (simp add: remove_hex_notation_def starts_with_def backtick_def)
  moreover have "undecorated ''eb''"
    by (simp add: undecorated_def hex_notations_def starts_with_def backtick_def backslash_def)
  ultimately show ?thesis
    using sample_scan_decorated_eb sample_scan_plain_eb sample_command_decorated_eb
      sample_command_plain_eb
    by (intro conjI)
qed

text \<open>
  C9 (amended).  Take a string without decoration (no backtick, none of the notations 0x,
  0X, backslash-x, backslash-X, x, X at its start) that is neither the keyword of the
  command nor \<open>pid\<close>, and decorate it: put one of the notations, or nothing, in front
  and backticks anywhere after it.  Read as an address token or as a value token (the
  keyword is one of the six, no process id is awaited), the decorated and the plain string
  make the iteration of the loop do the same: the same number is stored, or the same
  message ends the command.  For a value token this holds for any converter, since lines
  131 to 137 remove the decoration before the length check and the conversion; for an
  address token the loop hands the raw token to \<open>ConvertStringToUInt64\<close>, and the
  property holds for the converter as the spec describes it.
\<close>

theorem decorated_token_parses_alike:
  assumes p: "p \<in> set hex_notations \<or> p = []"
    and u: "undecorated digits"
    and f: "filter (\<lambda>c. c \<noteq> backtick) body = digits"
    and k: "keyword_variant keyword \<noteq> None" "digits \<noteq> keyword" "digits \<noteq> ''pid''"
    and n: "\<not> NextIsProcId s"
    and c: "SetAddress s \<or> ConvertStringToUInt64 env = spec_ConvertStringToUInt64"
  shows "remove_hex_notation (p @ body) = digits
       \<and> remove_hex_notation digits = digits
       \<and> loop_body env keyword s (p @ body) = loop_body env keyword s digits"
proof -
  have r1: "remove_hex_notation (p @ body) = digits"
    using remove_hex_notation_decorated[OF p u f] .
  have r2: "remove_hex_notation digits = digits"
    using remove_hex_notation_undecorated[OF u] .
  have same: "p @ body = digits" if "backtick \<notin> set (p @ body)" "p = []"
    using that f filter_absent[of backtick body] by simp
  have nk: "p @ body \<noteq> keyword"
  proof
    assume e: "p @ body = keyword"
    from k(1) have six: "keyword \<in> {''!eb'', ''!ed'', ''!eq'', ''eb'', ''ed'', ''eq''}"
      by (auto simp: keyword_variant_def split: if_splits)
    then have nb: "backtick \<notin> set keyword" by (auto simp: backtick_def)
    have "p = []"
    proof (rule ccontr)
      assume "p \<noteq> []"
      with p have "p \<in> set hex_notations" by simp
      with e six show False
        by (auto simp: hex_notations_def backslash_def)
    qed
    with same nb e k(2) show False by simp
  qed
  have np: "p @ body \<noteq> ''pid''"
  proof
    assume e: "p @ body = ''pid''"
    then have nb: "backtick \<notin> set (p @ body)" by (simp add: backtick_def)
    have "p = []"
    proof (rule ccontr)
      assume "p \<noteq> []"
      with p have "p \<in> set hex_notations" by simp
      with e show False
        by (auto simp: hex_notations_def backslash_def)
    qed
    with same nb e k(3) show False by simp
  qed
  have "loop_body env keyword s (p @ body) = loop_body env keyword s digits"
  proof (cases "SetAddress s")
    case True
    with nk np k n r1 r2 show ?thesis
      by (simp add: loop_body_def Let_def)
  next
    case False
    with c have "ConvertStringToUInt64 env = spec_ConvertStringToUInt64" by simp
    then have "ConvertStringToUInt64 env (p @ body) = ConvertStringToUInt64 env digits"
      by (simp add: spec_ConvertStringToUInt64_def r1 r2)
    with False nk np k n show ?thesis
      by (simp add: loop_body_def)
  qed
  with r1 r2 show ?thesis by simp
qed

theorem decorated_token_parses_alike_witness:
  "remove_hex_notation (''0x'' @ [CHR ''9'', backtick, CHR ''0'']) = ''90''
   \<and> loop_body sample_environment ''eb'' (initial_locals sample_environment)
         (''0x'' @ [CHR ''9'', backtick, CHR ''0'']) =
       loop_body sample_environment ''eb'' (initial_locals sample_environment) ''90''
   \<and> loop_body sample_environment ''eb''
         ((initial_locals sample_environment)\<lparr>SetAddress := True\<rparr>)
         (''0x'' @ [CHR ''9'', backtick, CHR ''0'']) =
       loop_body sample_environment ''eb''
         ((initial_locals sample_environment)\<lparr>SetAddress := True\<rparr>) ''90''"
proof -
  have p: "''0x'' \<in> set hex_notations \<or> ''0x'' = []"
    by (simp add: hex_notations_def)
  have u: "undecorated ''90''"
    by (simp add: undecorated_def hex_notations_def starts_with_def backtick_def backslash_def)
  have f: "filter (\<lambda>c. c \<noteq> backtick) [CHR ''9'', backtick, CHR ''0''] = ''90''"
    by (simp add: backtick_def)
  have k: "keyword_variant ''eb'' \<noteq> None" "''90'' \<noteq> ''eb''" "''90'' \<noteq> ''pid''"
    by (simp_all add: keyword_variant_def)
  have n: "\<not> NextIsProcId (initial_locals sample_environment)"
    "\<not> NextIsProcId ((initial_locals sample_environment)\<lparr>SetAddress := True\<rparr>)"
    by (simp_all add: initial_locals_def)
  have c: "SetAddress (initial_locals sample_environment) \<or>
      ConvertStringToUInt64 sample_environment = spec_ConvertStringToUInt64"
    "SetAddress ((initial_locals sample_environment)\<lparr>SetAddress := True\<rparr>) \<or>
      ConvertStringToUInt64 sample_environment = spec_ConvertStringToUInt64"
    by (simp_all add: sample_environment_def)
  from decorated_token_parses_alike[OF p u f k n(1) c(1)]
    decorated_token_parses_alike[OF p u f k n(2) c(2)]
  show ?thesis by blast
qed

section \<open>Properties of the user-mode access functions\<close>

subsection \<open>References, handles and the temporary buffer\<close>

lemmas resource_counts = references_taken_def references_released_def handles_opened_def
  handles_closed_def temporary_allocated_def temporary_freed_def

lemmas sample_kernel_eval = sample_kernel_def exhausted_kernel_def sample_query_def
  NT_SUCCESS_def STATUS_SUCCESS_def STATUS_INFO_LENGTH_MISMATCH_def

lemma sample_GetPeb:
  "UserAccessGetPebFromProcessId sample_kernel 4 =
     (True,
      [PsLookupProcessByProcessId 0, ObOpenObjectByPointer 0, ObDereferenceObject,
       ZwQueryInformationProcess ProcessBasicInformation 48],
      Some 0x7000)"
  by (simp add: UserAccessGetPebFromProcessId_def sample_kernel_eval Let_def)

lemma sample_GetImagePath:
  "UserAccessAllocateAndGetImagePathFromProcessId sample_kernel 4 512 =
     (True,
      [PsLookupProcessByProcessId 0, ObOpenObjectByPointer 0, ObDereferenceObject,
       ZwQueryInformationProcess ProcessImageFileName 0,
       ExAllocatePoolWithTag Buffer_temporary 48 True,
       ZwQueryInformationProcess ProcessImageFileName 48,
       ExAllocatePoolWithTag ProcessImageName_Buffer 512 True,
       ExFreePoolWithTag Buffer_temporary],
      Some (RtlCopyUnicodeString 512 512
              \<lparr> Length = 4, MaximumLength = 4, Buffer = [0x61, 0, 0x62, 0] \<rparr>))"
  by (simp add: UserAccessAllocateAndGetImagePathFromProcessId_def sample_kernel_eval Let_def)

text \<open>
  The claim as it stands, that every exit path after the acquisition has released every
  reference and every handle, fails on the path where everything succeeds: both queries
  return with the handle still open.
\<close>

theorem handle_is_never_closed:
  "\<not> releases_everything (fst (snd (UserAccessGetPebFromProcessId sample_kernel 4)))
   \<and> \<not> releases_everything
         (fst (snd (UserAccessAllocateAndGetImagePathFromProcessId sample_kernel 4 512)))"
  by (simp add: sample_GetPeb sample_GetImagePath releases_everything_def resource_counts
      NT_SUCCESS_def)

text \<open>
  C3 (amended).  In the image-path query and in the PEB query, once the lookup and the open
  of the handle have both succeeded, every exit path, successful or not, has taken one
  reference on the process and has given it back exactly once, as the third call, right
  after the handle was opened; one handle was opened, and no path closes it.
\<close>

theorem reference_released_once_after_open:
  assumes "NT_SUCCESS (PsLookupProcessByProcessId_status k pid)"
    and "NT_SUCCESS (ObOpenObjectByPointer_status k pid)"
    and "calls = fst (snd (UserAccessAllocateAndGetImagePathFromProcessId k pid n)) \<or>
         calls = fst (snd (UserAccessGetPebFromProcessId k pid))"
  shows "references_taken calls = 1 \<and> references_released calls = 1
       \<and> handles_opened calls = 1 \<and> handles_closed calls = 0
       \<and> take 3 calls =
           [PsLookupProcessByProcessId (PsLookupProcessByProcessId_status k pid),
            ObOpenObjectByPointer (ObOpenObjectByPointer_status k pid),
            ObDereferenceObject]"
  using assms(3)
proof
  assume "calls = fst (snd (UserAccessAllocateAndGetImagePathFromProcessId k pid n))"
  with assms(1,2) show ?thesis
    by (simp add: UserAccessAllocateAndGetImagePathFromProcessId_def Let_def resource_counts
        split: option.splits)
next
  assume "calls = fst (snd (UserAccessGetPebFromProcessId k pid))"
  with assms(1,2) show ?thesis
    by (simp add: UserAccessGetPebFromProcessId_def Let_def resource_counts
        split: option.splits)
qed

theorem reference_released_once_after_open_witness:
  "references_taken (fst (snd (UserAccessGetPebFromProcessId sample_kernel 4))) = 1
   \<and> references_released (fst (snd (UserAccessGetPebFromProcessId sample_kernel 4))) = 1
   \<and> handles_opened (fst (snd (UserAccessGetPebFromProcessId sample_kernel 4))) = 1
   \<and> handles_closed (fst (snd (UserAccessGetPebFromProcessId sample_kernel 4))) = 0"
proof -
  have 1: "NT_SUCCESS (PsLookupProcessByProcessId_status sample_kernel 4)"
    and 2: "NT_SUCCESS (ObOpenObjectByPointer_status sample_kernel 4)"
    by (simp_all add: sample_kernel_eval)
  from reference_released_once_after_open[OF 1 2, of _ 512] show ?thesis by blast
qed

lemma temporary_buffer_freed_unless:
  assumes "calls = fst (snd (UserAccessAllocateAndGetImagePathFromProcessId k pid n))"
    and "temporary_allocated calls = 1"
    and "g_ZwQueryInformationProcess k = Some query"
    and "answer = query ProcessImageFileName (ReturnLength (query ProcessImageFileName 0))"
  shows "temporary_freed calls =
           (if NT_SUCCESS (Status answer) \<and>
               \<not> ExAllocatePoolWithTag_succeeds k ProcessImageName_Buffer n
            then 0 else 1)"
  using assms
  by (simp add: UserAccessAllocateAndGetImagePathFromProcessId_def Let_def resource_counts
      split: if_splits)

text \<open>
  C6.  The claim is that every path that reaches the second, sized query frees the temporary
  buffer exactly once.  The paths on which the query fails, or succeeds and the output
  buffer is allocated, do so (\<open>temporary_buffer_freed_unless\<close>).  When the query
  succeeds and the allocation of the output buffer fails, the function returns on line 135
  with the temporary buffer allocated and never freed.
\<close>

theorem temporary_buffer_not_freed:
  "UserAccessAllocateAndGetImagePathFromProcessId exhausted_kernel 4 512 =
     (False,
      [PsLookupProcessByProcessId 0, ObOpenObjectByPointer 0, ObDereferenceObject,
       ZwQueryInformationProcess ProcessImageFileName 0,
       ExAllocatePoolWithTag Buffer_temporary 48 True,
       ZwQueryInformationProcess ProcessImageFileName 48,
       ExAllocatePoolWithTag ProcessImageName_Buffer 512 False],
      None)
   \<and> temporary_allocated
         (fst (snd (UserAccessAllocateAndGetImagePathFromProcessId exhausted_kernel 4 512))) = 1
   \<and> temporary_freed
         (fst (snd (UserAccessAllocateAndGetImagePathFromProcessId exhausted_kernel 4 512))) = 0"
  by (simp add: UserAccessAllocateAndGetImagePathFromProcessId_def sample_kernel_eval Let_def
      resource_counts)

subsection \<open>The module walk\<close>

lemma walk_x64_chain:
  "chain_x64 k m head List es \<Longrightarrow>
   walk_x64 k m head List = Some (map (\<lambda>(a, Entry). module_line Entry) es, True)"
proof (induction es arbitrary: List)
  case Nil
  then show ?case by (subst walk_x64.simps) simp
next
  case (Cons ae es)
  obtain a Entry where ae: "ae = (a, Entry)" by (cases ae)
  from Cons.prems ae obtain Flink where
    l: "List = a" "a \<noteq> head"
    and e: "read_LDR_DATA_TABLE_ENTRY m (a - offsetof_InLoadOrderModuleList k) = Some Entry"
    and f: "read_Flink m a = Some Flink"
    and c: "chain_x64 k m head Flink es"
    by (auto split: option.splits)
  from Cons.IH[OF c] l e f ae show ?case
    by (subst walk_x64.simps) simp
qed

lemma walk_x64_lines:
  assumes "walk_x64 k m head List = Some r"
  shows "list_all is_Log (fst r)"
proof (rule walk_x64.raw_induct[where P = "\<lambda>k m head List r. list_all is_Log (fst r)",
      OF _ assms], goal_cases)
  case (1 walk k m head List r)
  then show ?case
    by (auto split: if_splits option.splits prod.splits
        simp: bind_eq_Some_conv module_line_def)
qed

lemma walk_x86_chain:
  "chain_x86 k m head List es \<Longrightarrow>
   walk_x86 k m head List = Some (map (\<lambda>(a, Entry). module_line32 Entry) es, True)"
proof (induction es arbitrary: List)
  case Nil
  then show ?case by (subst walk_x86.simps) simp
next
  case (Cons ae es)
  obtain a Entry where ae: "ae = (a, Entry)" by (cases ae)
  from Cons.prems ae obtain Flink where
    l: "List = a" "a \<noteq> head"
    and e: "read_LDR_DATA_TABLE_ENTRY32 m (a - offsetof_InLoadOrderLinks32 k) = Some Entry"
    and f: "read_Flink32 m a = Some Flink"
    and c: "chain_x86 k m head (ucast Flink) es"
    by (auto split: option.splits)
  from Cons.IH[OF c] l e f ae show ?case
    by (subst walk_x86.simps) simp
qed

lemma walk_x86_lines:
  assumes "walk_x86 k m head List = Some r"
  shows "list_all is_Log (fst r)"
proof (rule walk_x86.raw_induct[where P = "\<lambda>k m head List r. list_all is_Log (fst r)",
      OF _ assms], goal_cases)
  case (1 walk k m head List r)
  then show ?case
    by (auto split: if_splits option.splits prod.splits
        simp: bind_eq_Some_conv module_line32_def Let_def)
qed

lemma count_list_Log:
  assumes "list_all is_Log lines" and "\<not> is_Log e"
  shows "count_list lines e = 0"
  using assms by (induction lines) auto

lemma paired_counts:
  assumes "list_all is_Log lines"
    and "calls = KeStackAttachProcess # lines @ [KeUnstackDetachProcess]"
  shows "count_list calls KeStackAttachProcess = 1 \<and>
         count_list calls KeUnstackDetachProcess = 1 \<and>
         hd calls = KeStackAttachProcess \<and> last calls = KeUnstackDetachProcess"
  using assms count_list_Log[of lines KeStackAttachProcess]
    count_list_Log[of lines KeUnstackDetachProcess]
  by simp

lemma X64_returns_paired:
  assumes "UserAccessPrintLoadedModulesX64 k m Proc = Some (Returns b, calls)"
  shows "calls = [] \<or>
         (\<exists>lines. list_all is_Log lines \<and>
                  calls = KeStackAttachProcess # lines @ [KeUnstackDetachProcess])"
proof (cases "\<exists>f Ldr. g_PsGetProcessPeb k = Some f \<and> f Proc \<noteq> 0 \<and>
                  read_Peb_Ldr m (f Proc) = Some Ldr \<and> Ldr \<noteq> 0")
  case False
  with assms have "calls = [] \<or> calls = KeStackAttachProcess # [] @ [KeUnstackDetachProcess]"
    by (auto simp: UserAccessPrintLoadedModulesX64_def Let_def
        split: option.splits if_splits)
  then show ?thesis by auto
next
  case True
  then obtain f Ldr where f: "g_PsGetProcessPeb k = Some f" "f Proc \<noteq> 0"
    "read_Peb_Ldr m (f Proc) = Some Ldr" "Ldr \<noteq> 0" by blast
  with assms obtain Flink lines where
    w: "walk_x64 k m (Ldr + offsetof_ModuleListLoadOrder k) Flink = Some (lines, True)"
    and c: "calls = KeStackAttachProcess # lines @ [KeUnstackDetachProcess]"
    by (auto simp: UserAccessPrintLoadedModulesX64_def Let_def
        split: option.splits if_splits prod.splits)
  from walk_x64_lines[OF w] c show ?thesis by auto
qed

lemma X86_returns_paired:
  assumes "UserAccessPrintLoadedModulesX86 k m Proc = Some (Returns b, calls)"
  shows "calls = [] \<or>
         (\<exists>lines. list_all is_Log lines \<and>
                  calls = KeStackAttachProcess # lines @ [KeUnstackDetachProcess])"
proof (cases "\<exists>f Ldr. g_PsGetProcessWow64Process k = Some f \<and> f Proc \<noteq> 0 \<and>
                  read_Peb32_Ldr m (f Proc) = Some Ldr \<and> ucast Ldr \<noteq> (0 :: 64 word)")
  case False
  with assms have "calls = [] \<or> calls = KeStackAttachProcess # [] @ [KeUnstackDetachProcess]"
    by (auto simp: UserAccessPrintLoadedModulesX86_def Let_def
        split: option.splits if_splits)
  then show ?thesis by auto
next
  case True
  then obtain f Ldr where f: "g_PsGetProcessWow64Process k = Some f" "f Proc \<noteq> 0"
    "read_Peb32_Ldr m (f Proc) = Some Ldr" "ucast Ldr \<noteq> (0 :: 64 word)" by blast
  with assms obtain Flink lines where
    w: "walk_x86 k m (ucast Ldr + offsetof_InLoadOrderModuleList32 k) Flink = Some (lines, True)"
    and c: "calls = KeStackAttachProcess # lines @ [KeUnstackDetachProcess]"
    by (auto simp: UserAccessPrintLoadedModulesX86_def Let_def
        split: option.splits if_splits prod.splits)
  from walk_x86_lines[OF w] c show ?thesis by auto
qed

lemma X64_on_list:
  assumes "load_order_list_x64 k m Proc es"
  shows "UserAccessPrintLoadedModulesX64 k m Proc =
           Some (Returns True,
                 KeStackAttachProcess # map (\<lambda>(a, Entry). module_line Entry) es @
                 [KeUnstackDetachProcess])"
proof -
  from assms obtain f Ldr Flink where f: "g_PsGetProcessPeb k = Some f" "f Proc \<noteq> 0"
    "read_Peb_Ldr m (f Proc) = Some Ldr" "Ldr \<noteq> 0"
    "read_Flink m (Ldr + offsetof_ModuleListLoadOrder k) = Some Flink"
    and c: "chain_x64 k m (Ldr + offsetof_ModuleListLoadOrder k) Flink es"
    by (auto simp: load_order_list_x64_def split: option.splits)
  from walk_x64_chain[OF c] f show ?thesis
    by (simp add: UserAccessPrintLoadedModulesX64_def)
qed

lemma X86_on_list:
  assumes "load_order_list_x86 k m Proc es"
  shows "UserAccessPrintLoadedModulesX86 k m Proc =
           Some (Returns True,
                 KeStackAttachProcess # map (\<lambda>(a, Entry). module_line32 Entry) es @
                 [KeUnstackDetachProcess])"
proof -
  from assms obtain f Ldr Flink where f: "g_PsGetProcessWow64Process k = Some f" "f Proc \<noteq> 0"
    "read_Peb32_Ldr m (f Proc) = Some Ldr" "ucast Ldr \<noteq> (0 :: 64 word)"
    "read_Flink32 m (ucast Ldr + offsetof_InLoadOrderModuleList32 k) = Some Flink"
    and c: "chain_x86 k m (ucast Ldr + offsetof_InLoadOrderModuleList32 k) (ucast Flink) es"
    by (auto simp: load_order_list_x86_def split: option.splits)
  from walk_x86_chain[OF c] f show ?thesis
    by (simp add: UserAccessPrintLoadedModulesX86_def)
qed

lemma module_lines_are_Log:
  "list_all is_Log (map (\<lambda>(a, Entry). module_line Entry) es)"
  "list_all is_Log (map (\<lambda>(a, Entry). module_line32 Entry) es32)"
  by (auto simp: list_all_iff module_line_def module_line32_def Let_def)

text \<open>
  C7.  When a module walk of either variant returns and has attached to the target, its
  calls start with the one attach and end with the one detach.  A null \<open>Ldr\<close> in the
  PEB makes the walk return \<open>FALSE\<close> after one attach and one detach.  On a circular
  load-order list the walk does return, with one attach and one detach.
\<close>

theorem attach_paired_with_one_detach:
  "((UserAccessPrintLoadedModulesX64 k m Proc = Some (Returns b, calls) \<or>
     UserAccessPrintLoadedModulesX86 k m Proc = Some (Returns b, calls)) \<and>
    KeStackAttachProcess \<in> set calls \<longrightarrow>
      count_list calls KeStackAttachProcess = 1 \<and>
      count_list calls KeUnstackDetachProcess = 1 \<and>
      hd calls = KeStackAttachProcess \<and> last calls = KeUnstackDetachProcess)
   \<and> (g_PsGetProcessPeb k = Some PsGetProcessPeb \<and> PsGetProcessPeb Proc \<noteq> 0 \<and>
        read_Peb_Ldr m (PsGetProcessPeb Proc) = Some 0 \<longrightarrow>
        UserAccessPrintLoadedModulesX64 k m Proc =
          Some (Returns False, [KeStackAttachProcess, KeUnstackDetachProcess]))
   \<and> (g_PsGetProcessWow64Process k = Some PsGetProcessWow64Process \<and>
        PsGetProcessWow64Process Proc \<noteq> 0 \<and>
        read_Peb32_Ldr m (PsGetProcessWow64Process Proc) = Some 0 \<longrightarrow>
        UserAccessPrintLoadedModulesX86 k m Proc =
          Some (Returns False, [KeStackAttachProcess, KeUnstackDetachProcess]))
   \<and> (load_order_list_x64 k m Proc es \<longrightarrow>
        (\<exists>calls'. UserAccessPrintLoadedModulesX64 k m Proc = Some (Returns True, calls') \<and>
                  count_list calls' KeStackAttachProcess = 1 \<and>
                  count_list calls' KeUnstackDetachProcess = 1))
   \<and> (load_order_list_x86 k m Proc es32 \<longrightarrow>
        (\<exists>calls'. UserAccessPrintLoadedModulesX86 k m Proc = Some (Returns True, calls') \<and>
                  count_list calls' KeStackAttachProcess = 1 \<and>
                  count_list calls' KeUnstackDetachProcess = 1))"
proof (intro conjI impI)
  assume a: "(UserAccessPrintLoadedModulesX64 k m Proc = Some (Returns b, calls) \<or>
     UserAccessPrintLoadedModulesX86 k m Proc = Some (Returns b, calls)) \<and>
    KeStackAttachProcess \<in> set calls"
  then have "calls = [] \<or>
         (\<exists>lines. list_all is_Log lines \<and>
                  calls = KeStackAttachProcess # lines @ [KeUnstackDetachProcess])"
    using X64_returns_paired X86_returns_paired by blast
  with a obtain lines where "list_all is_Log lines"
    "calls = KeStackAttachProcess # lines @ [KeUnstackDetachProcess]" by auto
  from paired_counts[OF this]
  show "count_list calls KeStackAttachProcess = 1"
    "count_list calls KeUnstackDetachProcess = 1"
    "hd calls = KeStackAttachProcess" "last calls = KeUnstackDetachProcess"
    by simp_all
next
  assume "g_PsGetProcessPeb k = Some PsGetProcessPeb \<and> PsGetProcessPeb Proc \<noteq> 0 \<and>
        read_Peb_Ldr m (PsGetProcessPeb Proc) = Some 0"
  then show "UserAccessPrintLoadedModulesX64 k m Proc =
          Some (Returns False, [KeStackAttachProcess, KeUnstackDetachProcess])"
    by (simp add: UserAccessPrintLoadedModulesX64_def)
next
  assume "g_PsGetProcessWow64Process k = Some PsGetProcessWow64Process \<and>
        PsGetProcessWow64Process Proc \<noteq> 0 \<and>
        read_Peb32_Ldr m (PsGetProcessWow64Process Proc) = Some 0"
  then show "UserAccessPrintLoadedModulesX86 k m Proc =
          Some (Returns False, [KeStackAttachProcess, KeUnstackDetachProcess])"
    by (simp add: UserAccessPrintLoadedModulesX86_def)
next
  assume "load_order_list_x64 k m Proc es"
  from X64_on_list[OF this] paired_counts[OF module_lines_are_Log(1) refl, of es]
  show "\<exists>calls'. UserAccessPrintLoadedModulesX64 k m Proc = Some (Returns True, calls') \<and>
                  count_list calls' KeStackAttachProcess = 1 \<and>
                  count_list calls' KeUnstackDetachProcess = 1"
    by blast
next
  assume "load_order_list_x86 k m Proc es32"
  from X86_on_list[OF this] paired_counts[OF module_lines_are_Log(2) refl, of es32]
  show "\<exists>calls'. UserAccessPrintLoadedModulesX86 k m Proc = Some (Returns True, calls') \<and>
                  count_list calls' KeStackAttachProcess = 1 \<and>
                  count_list calls' KeUnstackDetachProcess = 1"
    by blast
qed

lemmas sample_target_eval = sample_kernel_def sample_target_def
  sample_target_without_loader_def load_order_list_x64_def load_order_list_x86_def

lemma sample_list_x64:
  "load_order_list_x64 sample_kernel sample_target 1
     [(0x9000, sample_entry1), (0xA000, sample_entry2)]"
  by (simp add: sample_target_eval)

lemma sample_list_x86:
  "load_order_list_x86 sample_kernel sample_target 1
     [(0x9000, sample_entry32_1), (0xA000, sample_entry32_2)]"
  by (simp add: sample_target_eval)

theorem attach_paired_with_one_detach_witness:
  "UserAccessPrintLoadedModulesX64 sample_kernel sample_target_without_loader 1 =
     Some (Returns False, [KeStackAttachProcess, KeUnstackDetachProcess])
   \<and> UserAccessPrintLoadedModulesX86 sample_kernel sample_target_without_loader 1 =
     Some (Returns False, [KeStackAttachProcess, KeUnstackDetachProcess])
   \<and> (\<exists>calls. UserAccessPrintLoadedModulesX64 sample_kernel sample_target 1 =
                 Some (Returns True, calls) \<and>
               count_list calls KeStackAttachProcess = 1 \<and>
               count_list calls KeUnstackDetachProcess = 1)
   \<and> (\<exists>calls. UserAccessPrintLoadedModulesX86 sample_kernel sample_target 1 =
                 Some (Returns True, calls) \<and>
               count_list calls KeStackAttachProcess = 1 \<and>
               count_list calls KeUnstackDetachProcess = 1)"
proof -
  have 1: "g_PsGetProcessPeb sample_kernel = Some (\<lambda>_. 0x7000) \<and>
      (\<lambda>_. 0x7000 :: 64 word) (1 :: 64 word) \<noteq> 0 \<and>
      read_Peb_Ldr sample_target_without_loader ((\<lambda>_. 0x7000) (1 :: 64 word)) = Some 0"
    by (simp add: sample_target_eval)
  have 2: "g_PsGetProcessWow64Process sample_kernel = Some (\<lambda>_. 0x7000) \<and>
      (\<lambda>_. 0x7000 :: 64 word) (1 :: 64 word) \<noteq> 0 \<and>
      read_Peb32_Ldr sample_target_without_loader ((\<lambda>_. 0x7000) (1 :: 64 word)) = Some 0"
    by (simp add: sample_target_eval)
  note t = attach_paired_with_one_detach[of sample_kernel _ 1]
  from t[of sample_target_without_loader _ _ "\<lambda>_. 0x7000" "\<lambda>_. 0x7000"] 1 2
  have a: "UserAccessPrintLoadedModulesX64 sample_kernel sample_target_without_loader 1 =
     Some (Returns False, [KeStackAttachProcess, KeUnstackDetachProcess])"
    and b: "UserAccessPrintLoadedModulesX86 sample_kernel sample_target_without_loader 1 =
     Some (Returns False, [KeStackAttachProcess, KeUnstackDetachProcess])"
    by blast+
  from t[of sample_target _ _ _ _ "[(0x9000, sample_entry1), (0xA000, sample_entry2)]"
      "[(0x9000, sample_entry32_1), (0xA000, sample_entry32_2)]"]
    sample_list_x64 sample_list_x86
  have c: "\<exists>calls. UserAccessPrintLoadedModulesX64 sample_kernel sample_target 1 =
                 Some (Returns True, calls) \<and>
               count_list calls KeStackAttachProcess = 1 \<and>
               count_list calls KeUnstackDetachProcess = 1"
    and d: "\<exists>calls. UserAccessPrintLoadedModulesX86 sample_kernel sample_target 1 =
                 Some (Returns True, calls) \<and>
               count_list calls KeStackAttachProcess = 1 \<and>
               count_list calls KeUnstackDetachProcess = 1"
    by blast+
  from a b c d show ?thesis by blast
qed

text \<open>
  C8.  For a process whose load-order list is a circular list of N entries, one call of the
  walker, in the 64-bit and in the 32-bit variant, returns \<open>TRUE\<close> and logs, between the
  attach and the detach, exactly N lines: one for each entry, in the order of the list,
  with the base address, the entry point and the buffers of the short name and of the full
  path of that entry (widened to 64 bits in the 32-bit variant).
\<close>

theorem walker_logs_each_module_once_in_order:
  "(load_order_list_x64 k m Proc es \<longrightarrow>
      UserAccessPrintLoadedModulesX64 k m Proc =
        Some (Returns True,
              KeStackAttachProcess # map (\<lambda>(a, Entry). module_line Entry) es @
              [KeUnstackDetachProcess]))
   \<and> (load_order_list_x86 k m Proc es32 \<longrightarrow>
      UserAccessPrintLoadedModulesX86 k m Proc =
        Some (Returns True,
              KeStackAttachProcess # map (\<lambda>(a, Entry). module_line32 Entry) es32 @
              [KeUnstackDetachProcess]))"
  using X64_on_list X86_on_list by blast

theorem walker_logs_each_module_once_in_order_witness:
  "UserAccessPrintLoadedModulesX64 sample_kernel sample_target 1 =
     Some (Returns True,
           [KeStackAttachProcess,
            Log 0x400000 0x401000 0x9100 0x9200,
            Log 0x7FF00000 0x7FF01000 0xA100 0xA200,
            KeUnstackDetachProcess])
   \<and> UserAccessPrintLoadedModulesX86 sample_kernel sample_target 1 =
     Some (Returns True,
           [KeStackAttachProcess,
            Log 0x400000 0x401000 0x9100 0x9200,
            Log 0x77000000 0x77001000 0xA100 0xA200,
            KeUnstackDetachProcess])"
  using walker_logs_each_module_once_in_order[of sample_kernel sample_target 1
      "[(0x9000, sample_entry1), (0xA000, sample_entry2)]"
      "[(0x9000, sample_entry32_1), (0xA000, sample_entry32_2)]"]
    sample_list_x64 sample_list_x86
  by (simp add: module_line_def module_line32_def Let_def sample_entry1_def sample_entry2_def
      sample_entry32_1_def sample_entry32_2_def)

end
